theory Spec2Isabelle
  imports Main
begin

text \<open>
  The provisioning program \<open>main.go\<close>: with a claim certificate it connects to AWS IoT over
  MQTT, asks for a permanent certificate, saves it, and registers the device with it. Each of
  the two requests is a publication answered on an accept topic or a reject topic; the
  callbacks of the two subscriptions pass the answer to the main thread over channels, and
  the main thread waits for it in a \<open>select\<close> with a timer.

  The run is a function of a \<open>world\<close>, which holds what the program does not decide: the
  results of the library and system calls, the messages that arrive, and the two choices of
  the Go scheduler. It yields the list of operations performed and the way the process ends.
\<close>

section \<open>Constants of main.go\<close>

text \<open>
  Go strings and byte slices are sequences of bytes; \<^typ>\<open>string\<close> is a list of 8-bit
  characters, so \<open>string(msg.Payload())\<close> and \<open>[]byte(s)\<close> are the identity here.
\<close>

definition region :: string where
  "region = ''us-east-1''"

definition templateName :: string where
  "templateName = ''testing_template''"

definition serialNumber :: string where
  "serialNumber = ''testing_serial''"

definition certificateFile :: string where
  "certificateFile = ''device_cert.pem''"

definition privateKeyFile :: string where
  "privateKeyFile = ''device_key.pem''"

definition rootCAFile :: string where
  "rootCAFile = ''root_ca.pem''"

definition AWSIoTEndpoint :: string where
  "AWSIoTEndpoint = ''aj0bkidxn9p53-ats.iot.us-east-1.amazonaws.com''"

definition topicCreateCertificate :: string where
  "topicCreateCertificate = ''$aws/certificates/create/json''"

definition topicCreateAccepted :: string where
  "topicCreateAccepted = ''$aws/certificates/create/json/accepted''"

definition topicCreateRejected :: string where
  "topicCreateRejected = ''$aws/certificates/create/json/rejected''"

definition topicRegisterThing :: string where
  "topicRegisterThing = ''$aws/provisioning-templates/testing_template/provision/json''"

definition topicRegisterAccepted :: string where
  "topicRegisterAccepted =
     ''$aws/provisioning-templates/testing_template/provision/json/accepted''"

definition topicRegisterRejected :: string where
  "topicRegisterRejected =
     ''$aws/provisioning-templates/testing_template/provision/json/rejected''"

text \<open>The two output names are literals at the calls of \<open>os.WriteFile\<close> (lines 144, 149).\<close>

definition permanentCertFile :: string where
  "permanentCertFile = ''permanent_cert.pem''"

definition permanentKeyFile :: string where
  "permanentKeyFile = ''permanent_key.pem''"

text \<open>File modes \<open>0644\<close> and \<open>0600\<close> (octal).\<close>

definition mode0644 :: nat where
  "mode0644 = 6 * 64 + 4 * 8 + 4"

definition mode0600 :: nat where
  "mode0600 = 6 * 64"

text \<open>\<open>time.Second\<close> in nanoseconds, the unit of \<open>time.Duration\<close>.\<close>

definition Second :: nat where
  "Second = 1000000000"

section \<open>Data model\<close>

text \<open>
  The two responses. \<open>json.Unmarshal\<close> fills their fields from the JSON keys named by the
  struct tags: \<open>certificateId\<close>, \<open>certificatePem\<close>, \<open>privateKey\<close>,
  \<open>certificateOwnershipToken\<close>, \<open>resourceArns\<close>, and \<open>deviceConfiguration\<close>,
  \<open>thingName\<close>.
\<close>

record CreateCertificateResponse =
  CertificateID :: string
  CertificatePem :: string
  PrivateKey :: string
  CertificateOwnershipToken :: string
  ResourceArns :: "string \<rightharpoonup> string"

text \<open>\<open>'v\<close> stands for Go's \<open>interface{}\<close> in \<open>map[string]interface{}\<close>.\<close>

record 'v RegisterThingResponse =
  DeviceConfiguration :: "string \<rightharpoonup> 'v"
  ThingName :: string

text \<open>
  The values handed to \<open>json.Marshal\<close>: a \<open>map[string]interface{}\<close> whose entries are
  strings or a \<open>map[string]string\<close>. Entries are listed as the map literal lists them; a Go map
  has no order, and the entries are looked up with \<^const>\<open>map_of\<close>.
\<close>

datatype goval =
    GoString string
  | GoStringMap "(string \<times> string) list"
  | GoMap "(string \<times> goval) list"

text \<open>The operations the program performs on its collaborators, in program order.\<close>

datatype op =
    OpLog string
  | OpLoadX509KeyPair string string
  | OpReadFile string
  | OpConnect string string
  | OpSubscribe string nat
  | OpPublish string nat bool string
  | OpWriteFile string string nat
  | OpDisconnect nat

text \<open>
  A token of the MQTT client, as \<open>token.Wait()\<close> and \<open>token.Error()\<close> see it:
  \<open>Wait\<close> returns once the token has completed, with or without an error, and has no
  time limit; a token that never completes keeps its caller waiting.
\<close>

datatype token = Completes "string option" | NeverCompletes

text \<open>
  How the process ends: \<open>log.Fatalf\<close> prints the message and calls \<open>os.Exit(1)\<close> (deferred
  calls do not run); otherwise \<open>main\<close> returns, unless it waits for ever on a token.
\<close>

datatype exit = Fatal string | Returned | Blocked

text \<open>The three cases of each \<open>select\<close>: response channel, error channel, timer.\<close>

datatype 'r outcome = Success 'r | Failure string | TimedOut

text \<open>A message the transport hands to its delivery thread, with its arrival time (ns).\<close>

record message =
  arrival :: nat
  topic :: string
  payload :: string

text \<open>The four callbacks registered with \<open>Subscribe\<close>.\<close>

datatype handler = HCreateAccepted | HCreateRejected | HRegisterAccepted | HRegisterRejected

text \<open>The four channels of capacity one: a buffer that is empty or holds one value.\<close>

record 'v chans =
  certResponseChan :: "CreateCertificateResponse option"
  certErrorChan :: "string option"
  registerResponseChan :: "'v RegisterThingResponse option"
  registerErrorChan :: "string option"

datatype 'v sendto =
    ToCertResponse CreateCertificateResponse
  | ToCertError string
  | ToRegisterResponse "'v RegisterThingResponse"
  | ToRegisterError string

text \<open>
  Everything outside \<open>main.go\<close> that the run depends on: the library functions it calls
  (\<open>encoding/json\<close>, \<open>fmt\<close>'s \<open>%+v\<close>), the answers of the operating system and of the MQTT
  client, the messages that arrive and when, and the scheduler's choices.
  An error is its \<open>Error()\<close> text.

  \<^item> \<open>inbox\<close> lists the messages that the client receives, in the order in which its
    delivery thread takes them, each with its arrival time. Times are in nanoseconds and count
    from the publication of the certificate request, which the program makes after its first
    two subscriptions. A broker sends a message only to a client that has subscribed to its
    topic, so no message on a registration topic arrives before the program has subscribed
    to it.
  \<^item> \<open>firstSelectAt\<close> is the time at which the main thread, back from waiting for the
    acknowledgement of its publication, enters the first \<open>select\<close>;
    \<open>secondSelectDelay\<close> is the time it takes from receiving there to entering the second.
  \<^item> \<open>pickFirst\<close> and \<open>pickSecond\<close> are Go's choice in each \<open>select\<close> when both of its
    channels are ready.
\<close>

record 'v world =
  jsonMarshal :: "goval \<Rightarrow> string + string"
  unmarshalCert :: "string \<Rightarrow> string + CreateCertificateResponse"
  unmarshalRegister :: "string \<Rightarrow> string + 'v RegisterThingResponse"
  fmtConfig :: "(string \<rightharpoonup> 'v) \<Rightarrow> string"
  loadX509KeyPair :: "string \<Rightarrow> string \<Rightarrow> string option"
  readFile :: "string \<Rightarrow> string + string"
  connect :: "string \<Rightarrow> string \<Rightarrow> token"
  publish :: "string \<Rightarrow> string \<Rightarrow> token"
  writeFile :: "string \<Rightarrow> string \<Rightarrow> nat \<Rightarrow> string option"
  inbox :: "message list"
  firstSelectAt :: nat
  secondSelectDelay :: nat
  pickFirst :: bool
  pickSecond :: bool

section \<open>The subscription callbacks (lines 109-120 and 159-170)\<close>

definition onCreateAccepted :: "'v world \<Rightarrow> string \<Rightarrow> 'v sendto" where
  "onCreateAccepted w p =
     (case unmarshalCert w p of
        Inl err \<Rightarrow> ToCertError (''failed to unmarshal certificate response: '' @ err)
      | Inr response \<Rightarrow> ToCertResponse response)"

definition onCreateRejected :: "string \<Rightarrow> 'v sendto" where
  "onCreateRejected p = ToCertError (''certificate creation rejected: '' @ p)"

definition onRegisterAccepted :: "'v world \<Rightarrow> string \<Rightarrow> 'v sendto" where
  "onRegisterAccepted w p =
     (case unmarshalRegister w p of
        Inl err \<Rightarrow> ToRegisterError (''failed to unmarshal register thing response: '' @ err)
      | Inr response \<Rightarrow> ToRegisterResponse response)"

definition onRegisterRejected :: "string \<Rightarrow> 'v sendto" where
  "onRegisterRejected p = ToRegisterError (''thing registration rejected: '' @ p)"

fun callback :: "'v world \<Rightarrow> handler \<Rightarrow> string \<Rightarrow> 'v sendto" where
  "callback w HCreateAccepted p = onCreateAccepted w p"
| "callback w HCreateRejected p = onCreateRejected p"
| "callback w HRegisterAccepted p = onRegisterAccepted w p"
| "callback w HRegisterRejected p = onRegisterRejected p"

section \<open>The delivery thread and the channels\<close>

text \<open>
  The client calls the callback registered for the topic of a message; a message on a topic
  with no subscription has no callback and is dropped.
\<close>

definition route :: "'v world \<Rightarrow> (string \<times> handler) list \<Rightarrow> message \<Rightarrow> 'v sendto option" where
  "route w subs m = map_option (\<lambda>h. callback w h (payload m)) (map_of subs (topic m))"

text \<open>
  \<open>ch <- v\<close> on a channel of capacity one: it fills an empty buffer, and blocks
  (\<^const>\<open>None\<close>) while the buffer is full.
\<close>

fun send :: "'v chans \<Rightarrow> 'v sendto \<Rightarrow> 'v chans option" where
  "send ch (ToCertResponse r) =
     (if certResponseChan ch = None then Some (ch\<lparr>certResponseChan := Some r\<rparr>) else None)"
| "send ch (ToCertError e) =
     (if certErrorChan ch = None then Some (ch\<lparr>certErrorChan := Some e\<rparr>) else None)"
| "send ch (ToRegisterResponse r) =
     (if registerResponseChan ch = None then Some (ch\<lparr>registerResponseChan := Some r\<rparr>)
      else None)"
| "send ch (ToRegisterError e) =
     (if registerErrorChan ch = None then Some (ch\<lparr>registerErrorChan := Some e\<rparr>) else None)"

text \<open>
  The delivery thread runs the callbacks one after the other, in the order of arrival (the
  MQTT client calls them from one goroutine; the callbacks here are never concurrent with
  each other, only with the main thread). It stops at a callback whose send blocks: that
  message and the ones behind it stay pending.
\<close>

fun deliver ::
  "'v world \<Rightarrow> (string \<times> handler) list \<Rightarrow> message list \<Rightarrow> 'v chans
     \<Rightarrow> message list \<times> 'v chans" where
  "deliver w subs [] ch = ([], ch)"
| "deliver w subs (m # ms) ch =
     (case route w subs m of
        None \<Rightarrow> deliver w subs ms ch
      | Some s \<Rightarrow>
          (case send ch s of
             None \<Rightarrow> (m # ms, ch)
           | Some ch' \<Rightarrow> deliver w subs ms ch'))"

text \<open>
  The channel cases of the two \<open>select\<close> statements: receive from the channel that is ready.
  When both are ready, "a single one that can proceed is chosen via a uniform pseudo-random
  selection" (The Go Programming Language Specification, Select statements); \<open>pick\<close> is
  that choice (\<^const>\<open>True\<close> for the response channel).
\<close>

definition pollCert ::
  "bool \<Rightarrow> 'v chans \<Rightarrow> (CreateCertificateResponse outcome \<times> 'v chans) option" where
  "pollCert pick ch =
     (case (certResponseChan ch, certErrorChan ch) of
        (None, None) \<Rightarrow> None
      | (Some r, None) \<Rightarrow> Some (Success r, ch\<lparr>certResponseChan := None\<rparr>)
      | (None, Some e) \<Rightarrow> Some (Failure e, ch\<lparr>certErrorChan := None\<rparr>)
      | (Some r, Some e) \<Rightarrow>
          (if pick then Some (Success r, ch\<lparr>certResponseChan := None\<rparr>)
           else Some (Failure e, ch\<lparr>certErrorChan := None\<rparr>)))"

definition pollRegister ::
  "bool \<Rightarrow> 'v chans \<Rightarrow> ('v RegisterThingResponse outcome \<times> 'v chans) option" where
  "pollRegister pick ch =
     (case (registerResponseChan ch, registerErrorChan ch) of
        (None, None) \<Rightarrow> None
      | (Some r, None) \<Rightarrow> Some (Success r, ch\<lparr>registerResponseChan := None\<rparr>)
      | (None, Some e) \<Rightarrow> Some (Failure e, ch\<lparr>registerErrorChan := None\<rparr>)
      | (Some r, Some e) \<Rightarrow>
          (if pick then Some (Success r, ch\<lparr>registerResponseChan := None\<rparr>)
           else Some (Failure e, ch\<lparr>registerErrorChan := None\<rparr>)))"

text \<open>
  A \<open>select\<close> that found no channel ready blocks until a callback sends on one of its two
  channels or the timer created by \<open>time.After(d)\<close> fires at \<open>t0 + d\<close>. The messages still to
  come are handled in order; one that arrives at the deadline or later comes after the timer.
  A callback that blocks on a full channel stops the delivery thread for good (nothing
  receives from that channel while \<open>main\<close> waits here), so the timer fires.
  The result is the case taken, the time, the messages not handled yet and the channels.
\<close>

fun await ::
  "'v world \<Rightarrow> (string \<times> handler) list \<Rightarrow> ('v chans \<Rightarrow> ('r outcome \<times> 'v chans) option)
     \<Rightarrow> nat \<Rightarrow> nat \<Rightarrow> message list \<Rightarrow> 'v chans
     \<Rightarrow> 'r outcome \<times> nat \<times> message list \<times> 'v chans" where
  "await w subs poll t0 d [] ch = (TimedOut, t0 + d, [], ch)"
| "await w subs poll t0 d (m # ms) ch =
     (if t0 + d \<le> arrival m then (TimedOut, t0 + d, m # ms, ch)
      else case route w subs m of
             None \<Rightarrow> await w subs poll t0 d ms ch
           | Some s \<Rightarrow>
               (case send ch s of
                  None \<Rightarrow> (TimedOut, t0 + d, m # ms, ch)
                | Some ch' \<Rightarrow>
                    (case poll ch' of
                       Some (out, ch'') \<Rightarrow> (out, max t0 (arrival m), ms, ch'')
                     | None \<Rightarrow> await w subs poll t0 d ms ch')))"

text \<open>
  A \<open>select\<close> entered at time \<open>t0\<close>. The messages that arrived up to then have been handled by
  the delivery thread (as far as it got); if a channel is ready the \<open>select\<close> receives at once,
  otherwise it waits.
\<close>

definition selectOn ::
  "'v world \<Rightarrow> (string \<times> handler) list \<Rightarrow> ('v chans \<Rightarrow> ('r outcome \<times> 'v chans) option)
     \<Rightarrow> nat \<Rightarrow> nat \<Rightarrow> message list \<Rightarrow> 'v chans
     \<Rightarrow> 'r outcome \<times> nat \<times> message list \<times> 'v chans" where
  "selectOn w subs poll t0 d msgs ch =
     (let early = takeWhile (\<lambda>m. arrival m \<le> t0) msgs;
          later = dropWhile (\<lambda>m. arrival m \<le> t0) msgs
      in case deliver w subs early ch of
           (blocked, ch1) \<Rightarrow>
             (case poll ch1 of
                Some (out, ch2) \<Rightarrow> (out, t0, blocked @ later, ch2)
              | None \<Rightarrow> await w subs poll t0 d (blocked @ later) ch1))"

section \<open>createMQTTClient (lines 49-88)\<close>

definition brokerURL :: string where
  "brokerURL = ''ssl://'' @ AWSIoTEndpoint @ '':8883''"

definition clientID :: string where
  "clientID = ''device-'' @ serialNumber"

text \<open>
  The result is the operations performed and what the function returns: an error, the client,
  or nothing (\<^const>\<open>None\<close>) when \<open>token.Wait()\<close> on the connection never returns.
\<close>

definition createMQTTClient ::
  "'v world \<Rightarrow> string \<Rightarrow> string \<Rightarrow> string \<Rightarrow> op list \<times> (string + unit) option" where
  "createMQTTClient w certFile keyFile caFile =
     (case loadX509KeyPair w certFile keyFile of
        Some err \<Rightarrow>
          ([OpLoadX509KeyPair certFile keyFile],
           Some (Inl (''failed to load certificates: '' @ err)))
      | None \<Rightarrow>
          (case readFile w caFile of
             Inl err \<Rightarrow>
               ([OpLoadX509KeyPair certFile keyFile, OpReadFile caFile],
                Some (Inl (''failed to load root CA: '' @ err)))
           | Inr rootCA \<Rightarrow>
               (case connect w brokerURL clientID of
                  NeverCompletes \<Rightarrow>
                    ([OpLoadX509KeyPair certFile keyFile, OpReadFile caFile,
                      OpConnect brokerURL clientID],
                     None)
                | Completes (Some err) \<Rightarrow>
                    ([OpLoadX509KeyPair certFile keyFile, OpReadFile caFile,
                      OpConnect brokerURL clientID],
                     Some (Inl (''failed to connect: '' @ err)))
                | Completes None \<Rightarrow>
                    ([OpLoadX509KeyPair certFile keyFile, OpReadFile caFile,
                      OpConnect brokerURL clientID],
                     Some (Inr ())))))"

section \<open>main (lines 93-209)\<close>

definition createCertPayload :: goval where
  "createCertPayload = GoMap [(''certificateSigningRequest'', GoString '''')]"

definition templateParams :: "(string \<times> string) list" where
  "templateParams = [(''SerialNumber'', serialNumber)]"

definition registerThingPayload :: "CreateCertificateResponse \<Rightarrow> goval" where
  "registerThingPayload certResponse =
     GoMap [(''certificateOwnershipToken'', GoString (CertificateOwnershipToken certResponse)),
            (''parameters'', GoStringMap templateParams)]"

text \<open>
  Lines 94-135: connect, subscribe to the two certificate topics, publish the request.
  The result is the operations performed and, when the run ends here, how.
\<close>

definition requestCertificate :: "'v world \<Rightarrow> op list \<times> exit option" where
  "requestCertificate w =
     (let tr0 = [OpLog ''Starting AWS IoT Device Provisioning test using trusted user flow'',
                 OpLog ''Creating MQTT client with temporary credentials...'']
      in case createMQTTClient w certificateFile privateKeyFile rootCAFile of
           (ops, None) \<Rightarrow> (tr0 @ ops, Some Blocked)
         | (ops, Some (Inl err)) \<Rightarrow>
             (tr0 @ ops, Some (Fatal (''Failed to create MQTT client: '' @ err)))
         | (ops, Some (Inr mqttClient)) \<Rightarrow>
             (let tr1 = tr0 @ ops @
                    [OpLog ''Subscribing to certificate creation response topics...'',
                     OpSubscribe topicCreateAccepted 1,
                     OpSubscribe topicCreateRejected 1,
                     OpLog ''Creating permanent certificate via MQTT...'']
              in case jsonMarshal w createCertPayload of
                   Inl err \<Rightarrow>
                     (tr1, Some (Fatal (''Failed to marshal create certificate payload: '' @ err)))
                 | Inr payloadBytes \<Rightarrow>
                     (let tr2 = tr1 @ [OpPublish topicCreateCertificate 1 False payloadBytes]
                      in case publish w topicCreateCertificate payloadBytes of
                           NeverCompletes \<Rightarrow> (tr2, Some Blocked)
                         | Completes (Some err) \<Rightarrow>
                             (tr2, Some (Fatal
                                (''Failed to publish create certificate request: '' @ err)))
                         | Completes None \<Rightarrow> (tr2, None))))"

text \<open>The subscriptions in force at the first and at the second \<open>select\<close>.\<close>

definition subsCreate :: "(string \<times> handler) list" where
  "subsCreate = [(topicCreateAccepted, HCreateAccepted), (topicCreateRejected, HCreateRejected)]"

definition subsAll :: "(string \<times> handler) list" where
  "subsAll = subsCreate @
     [(topicRegisterAccepted, HRegisterAccepted), (topicRegisterRejected, HRegisterRejected)]"

definition noChans :: "'v chans" where
  "noChans = \<lparr>certResponseChan = None, certErrorChan = None,
              registerResponseChan = None, registerErrorChan = None\<rparr>"

text \<open>Lines 138-139, 202-206: the first \<open>select\<close>, with its timer of ten seconds.\<close>

definition firstSelect ::
  "'v world \<Rightarrow> CreateCertificateResponse outcome \<times> nat \<times> message list \<times> 'v chans" where
  "firstSelect w =
     selectOn w subsCreate (pollCert (pickFirst w)) (firstSelectAt w) (10 * Second)
       (inbox w) noChans"

text \<open>
  Lines 140-189: save the certificate and the key, subscribe to the two registration
  topics, publish the registration request.
\<close>

definition requestRegistration ::
  "'v world \<Rightarrow> CreateCertificateResponse \<Rightarrow> op list \<times> exit option" where
  "requestRegistration w certResponse =
     (let tr0 = [OpLog ''Successfully created permanent certificate'',
                 OpLog (''Certificate ID: '' @ CertificateID certResponse),
                 OpWriteFile permanentCertFile (CertificatePem certResponse) mode0644]
      in case writeFile w permanentCertFile (CertificatePem certResponse) mode0644 of
           Some err \<Rightarrow>
             (tr0, Some (Fatal (''Failed to write permanent certificate to file: '' @ err)))
         | None \<Rightarrow>
             (let tr1 = tr0 @ [OpWriteFile permanentKeyFile (PrivateKey certResponse) mode0600]
              in case writeFile w permanentKeyFile (PrivateKey certResponse) mode0600 of
                   Some err \<Rightarrow>
                     (tr1, Some (Fatal
                        (''Failed to write permanent private key to file: '' @ err)))
                 | None \<Rightarrow>
                     (let tr2 = tr1 @
                            [OpLog ''Subscribing to thing registration response topics...'',
                             OpSubscribe topicRegisterAccepted 1,
                             OpSubscribe topicRegisterRejected 1,
                             OpLog ''Registering thing via MQTT...'']
                      in case jsonMarshal w (registerThingPayload certResponse) of
                           Inl err \<Rightarrow>
                             (tr2, Some (Fatal
                                (''Failed to marshal register thing payload: '' @ err)))
                         | Inr payloadBytes \<Rightarrow>
                             (let tr3 = tr2 @ [OpPublish topicRegisterThing 1 False payloadBytes]
                              in case publish w topicRegisterThing payloadBytes of
                                   NeverCompletes \<Rightarrow> (tr3, Some Blocked)
                                 | Completes (Some err) \<Rightarrow>
                                     (tr3, Some (Fatal
                                        (''Failed to publish register thing request: '' @ err)))
                                 | Completes None \<Rightarrow> (tr3, None)))))"

text \<open>
  Lines 156-157, 192-200: the second \<open>select\<close>, on two channels made anew, entered
  \<open>secondSelectDelay\<close> after the first one received, with a timer of ten seconds again.
\<close>

definition secondSelect ::
  "'v world \<Rightarrow> nat \<Rightarrow> message list \<Rightarrow> 'v chans
     \<Rightarrow> 'v RegisterThingResponse outcome \<times> nat \<times> message list \<times> 'v chans" where
  "secondSelect w t msgs ch =
     selectOn w subsAll (pollRegister (pickSecond w)) (t + secondSelectDelay w) (10 * Second)
       msgs (ch\<lparr>registerResponseChan := None, registerErrorChan := None\<rparr>)"

definition main :: "'v world \<Rightarrow> op list \<times> exit" where
  "main w =
     (case requestCertificate w of
        (tr1, Some x) \<Rightarrow> (tr1, x)
      | (tr1, None) \<Rightarrow>
          (case firstSelect w of
             (Success certResponse, t, msgs, ch) \<Rightarrow>
               (case requestRegistration w certResponse of
                  (tr2, Some x) \<Rightarrow> (tr1 @ tr2, x)
                | (tr2, None) \<Rightarrow>
                    (case secondSelect w t msgs ch of
                       (Success registerResponse, _) \<Rightarrow>
                         (tr1 @ tr2 @
                            [OpLog (''Successfully registered thing: '' @
                                      ThingName registerResponse),
                             OpLog (''Device configuration: '' @
                                      fmtConfig w (DeviceConfiguration registerResponse)),
                             OpLog ''Device provisioning test complete'',
                             OpDisconnect 250],
                          Returned)
                     | (Failure err, _) \<Rightarrow>
                         (tr1 @ tr2, Fatal (''Thing registration failed: '' @ err))
                     | (TimedOut, _) \<Rightarrow>
                         (tr1 @ tr2, Fatal ''Timeout waiting for thing registration response'')))
           | (Failure err, _) \<Rightarrow> (tr1, Fatal (''Certificate creation failed: '' @ err))
           | (TimedOut, _) \<Rightarrow>
               (tr1, Fatal ''Timeout waiting for certificate creation response'')))"

section \<open>Reading a run\<close>

text \<open>What a list of operations subscribes to, publishes, writes and reads.\<close>

fun subscribedTopics :: "op list \<Rightarrow> string list" where
  "subscribedTopics [] = []"
| "subscribedTopics (OpSubscribe t q # tr) = t # subscribedTopics tr"
| "subscribedTopics (_ # tr) = subscribedTopics tr"

fun published :: "op list \<Rightarrow> (string \<times> string) list" where
  "published [] = []"
| "published (OpPublish t q r p # tr) = (t, p) # published tr"
| "published (_ # tr) = published tr"

fun fileWrites :: "op list \<Rightarrow> (string \<times> string \<times> nat) list" where
  "fileWrites [] = []"
| "fileWrites (OpWriteFile f d m # tr) = (f, d, m) # fileWrites tr"
| "fileWrites (_ # tr) = fileWrites tr"

fun filesRead :: "op list \<Rightarrow> string list" where
  "filesRead [] = []"
| "filesRead (OpLoadX509KeyPair c k # tr) = c # k # filesRead tr"
| "filesRead (OpReadFile f # tr) = f # filesRead tr"
| "filesRead (_ # tr) = filesRead tr"

definition registrationTopics :: "string list" where
  "registrationTopics = [topicRegisterThing, topicRegisterAccepted, topicRegisterRejected]"

text \<open>
  The order of subscriptions and publications in a list of operations: every publication
  to a topic comes after the subscriptions to its \<open>/accepted\<close> and \<open>/rejected\<close> topics
  (\<open>seen\<close> is what was performed before).
\<close>

fun subscribedFirst :: "op list \<Rightarrow> op list \<Rightarrow> bool" where
  "subscribedFirst seen [] = True"
| "subscribedFirst seen (OpPublish t q r p # tr) =
     (OpSubscribe (t @ ''/accepted'') 1 \<in> set seen \<and>
      OpSubscribe (t @ ''/rejected'') 1 \<in> set seen \<and>
      subscribedFirst (seen @ [OpPublish t q r p]) tr)"
| "subscribedFirst seen (x # tr) = subscribedFirst (seen @ [x]) tr"

text \<open>An operation on one of the three registration topics.\<close>

fun touchesRegistration :: "op \<Rightarrow> bool" where
  "touchesRegistration (OpSubscribe t q) = (t \<in> set registrationTopics)"
| "touchesRegistration (OpPublish t q r p) = (t \<in> set registrationTopics)"
| "touchesRegistration _ = False"

section \<open>Scenarios\<close>

text \<open>
  A world for trying the run: every call succeeds, the two JSON functions are stand-ins that
  know one certificate response, one registration response and the empty object, and the
  messages are given.
  The main thread enters the first \<open>select\<close> three seconds after it has published the
  certificate request, and the second one three seconds after the first has received.
\<close>

definition scenarioCertResponse :: CreateCertificateResponse where
  "scenarioCertResponse =
     \<lparr>CertificateID = ''abc'', CertificatePem = ''CERTDATA'', PrivateKey = ''KEYDATA'',
      CertificateOwnershipToken = ''tok123'', ResourceArns = Map.empty\<rparr>"

definition scenarioRegisterResponse :: "nat RegisterThingResponse" where
  "scenarioRegisterResponse =
     \<lparr>DeviceConfiguration = [''x'' \<mapsto> 1], ThingName = ''thing-1''\<rparr>"

text \<open>
  What \<open>json.Unmarshal\<close> makes of the empty object \<open>{}\<close>: it returns no error and
  leaves every field of the struct at its zero value.
\<close>

definition zeroCertResponse :: CreateCertificateResponse where
  "zeroCertResponse =
     \<lparr>CertificateID = '''', CertificatePem = '''', PrivateKey = '''',
      CertificateOwnershipToken = '''', ResourceArns = Map.empty\<rparr>"

definition zeroRegisterResponse :: "nat RegisterThingResponse" where
  "zeroRegisterResponse = \<lparr>DeviceConfiguration = Map.empty, ThingName = ''''\<rparr>"

definition scenarioMarshal :: "goval \<Rightarrow> string + string" where
  "scenarioMarshal v =
     (case v of
        GoMap [(k, GoString s)] \<Rightarrow> Inr (k @ ''='' @ s)
      | GoMap [(k1, GoString s), (k2, GoStringMap [(k3, s3)])] \<Rightarrow>
          Inr (k1 @ ''='' @ s @ '';'' @ k2 @ ''.'' @ k3 @ ''='' @ s3)
      | _ \<Rightarrow> Inl ''unsupported value'')"

definition scenarioWorld :: "message list \<Rightarrow> bool \<Rightarrow> nat world" where
  "scenarioWorld msgs pick =
     \<lparr>jsonMarshal = scenarioMarshal,
      unmarshalCert =
        (\<lambda>p. if p = ''certificate-json'' then Inr scenarioCertResponse
             else if p = ''{}'' then Inr zeroCertResponse
             else Inl ''invalid character''),
      unmarshalRegister =
        (\<lambda>p. if p = ''registration-json'' then Inr scenarioRegisterResponse
             else if p = ''{}'' then Inr zeroRegisterResponse
             else Inl ''invalid character''),
      fmtConfig = (\<lambda>c. ''map[x:1]''),
      loadX509KeyPair = (\<lambda>c k. None),
      readFile = (\<lambda>f. Inr ''root certificate''),
      connect = (\<lambda>b c. Completes None),
      publish = (\<lambda>t p. Completes None),
      writeFile = (\<lambda>f d m. None),
      inbox = msgs,
      firstSelectAt = 3 * Second,
      secondSelectDelay = 3 * Second,
      pickFirst = pick,
      pickSecond = pick\<rparr>"

definition msg :: "nat \<Rightarrow> string \<Rightarrow> string \<Rightarrow> message" where
  "msg t tp p = \<lparr>arrival = t, topic = tp, payload = p\<rparr>"

text \<open>
  Worlds for the scenarios. The main thread enters the first \<open>select\<close> at 3 s, so its timer
  fires at 13 s.
\<close>

definition happyWorld :: "nat world" where
  "happyWorld = scenarioWorld
     [msg (4 * Second) topicCreateAccepted ''certificate-json'',
      msg (8 * Second) topicRegisterAccepted ''registration-json''] True"

definition rejectedWorld :: "nat world" where
  "rejectedWorld = scenarioWorld [msg (4 * Second) topicCreateRejected ''quota exceeded''] True"

definition malformedWorld :: "nat world" where
  "malformedWorld = scenarioWorld [msg (4 * Second) topicCreateAccepted ''{''] True"

definition lateWorld :: "nat world" where
  "lateWorld = scenarioWorld [msg (14 * Second) topicCreateAccepted ''certificate-json''] True"

definition lateRegistrationWorld :: "nat world" where
  "lateRegistrationWorld = scenarioWorld
     [msg (4 * Second) topicCreateAccepted ''certificate-json'',
      msg (18 * Second) topicRegisterAccepted ''registration-json''] True"

text \<open>
  A reject and then an accept, both handled before the main thread enters the first
  \<open>select\<close>: both channels are ready there, and \<open>pick\<close> is the choice.
\<close>

definition raceWorld :: "bool \<Rightarrow> nat world" where
  "raceWorld pick = scenarioWorld
     [msg Second topicCreateRejected ''quota exceeded'',
      msg (2 * Second) topicCreateAccepted ''certificate-json'',
      msg (8 * Second) topicRegisterAccepted ''registration-json''] pick"

text \<open>The same with a payload that does not parse in place of the reject.\<close>

definition malformedRaceWorld :: "nat world" where
  "malformedRaceWorld = scenarioWorld
     [msg Second topicCreateAccepted ''{'',
      msg (2 * Second) topicCreateAccepted ''certificate-json'',
      msg (8 * Second) topicRegisterAccepted ''registration-json''] True"

text \<open>The private key cannot be written.\<close>

definition diskFullWorld :: "nat world" where
  "diskFullWorld = happyWorld
     \<lparr>writeFile := (\<lambda>f d m. if f = permanentKeyFile then Some ''no space left on device''
                            else None)\<rparr>"

text \<open>
  An accept that arrives 12 s after the request was published, 9 s after the main thread
  has entered the first \<open>select\<close>.
\<close>

definition slowWorld :: "nat world" where
  "slowWorld = scenarioWorld [msg (12 * Second) topicCreateAccepted ''certificate-json''] True"

text \<open>The publication of the certificate request is never acknowledged.\<close>

definition unacknowledgedWorld :: "nat world" where
  "unacknowledgedWorld = lateWorld \<lparr>publish := (\<lambda>t p. NeverCompletes)\<rparr>"

text \<open>The publication of the registration request is never acknowledged.\<close>

definition registrationUnacknowledgedWorld :: "nat world" where
  "registrationUnacknowledgedWorld = happyWorld
     \<lparr>publish := (\<lambda>t p. if t = topicRegisterThing then NeverCompletes else Completes None)\<rparr>"



text \<open>No file can be written.\<close>

definition readOnlyWorld :: "nat world" where
  "readOnlyWorld = happyWorld \<lparr>writeFile := (\<lambda>f d m. Some ''permission denied'')\<rparr>"

text \<open>The operations of the scenario worlds up to each publication.\<close>

definition scenarioRequestOps :: "op list" where
  "scenarioRequestOps =
     [OpLog ''Starting AWS IoT Device Provisioning test using trusted user flow'',
      OpLog ''Creating MQTT client with temporary credentials...'',
      OpLoadX509KeyPair certificateFile privateKeyFile,
      OpReadFile rootCAFile,
      OpConnect brokerURL clientID,
      OpLog ''Subscribing to certificate creation response topics...'',
      OpSubscribe topicCreateAccepted 1,
      OpSubscribe topicCreateRejected 1,
      OpLog ''Creating permanent certificate via MQTT...'',
      OpPublish topicCreateCertificate 1 False ''certificateSigningRequest='']"

definition scenarioSaveOps :: "op list" where
  "scenarioSaveOps =
     [OpLog ''Successfully created permanent certificate'',
      OpLog ''Certificate ID: abc'',
      OpWriteFile permanentCertFile ''CERTDATA'' mode0644,
      OpWriteFile permanentKeyFile ''KEYDATA'' mode0600]"

definition scenarioSubscribeOps :: "op list" where
  "scenarioSubscribeOps =
     [OpLog ''Subscribing to thing registration response topics...'',
      OpSubscribe topicRegisterAccepted 1,
      OpSubscribe topicRegisterRejected 1,
      OpLog ''Registering thing via MQTT...'']"

definition scenarioRegistrationPayload :: string where
  "scenarioRegistrationPayload =
     ''certificateOwnershipToken=tok123;parameters.SerialNumber=testing_serial''"

definition scenarioDoneOps :: "op list" where
  "scenarioDoneOps =
     [OpLog ''Successfully registered thing: thing-1'',
      OpLog ''Device configuration: map[x:1]'',
      OpLog ''Device provisioning test complete'',
      OpDisconnect 250]"

section \<open>Basic facts\<close>

lemmas topic_defs = topicCreateCertificate_def topicCreateAccepted_def topicCreateRejected_def
  topicRegisterThing_def topicRegisterAccepted_def topicRegisterRejected_def

lemmas file_defs = certificateFile_def privateKeyFile_def rootCAFile_def
  permanentCertFile_def permanentKeyFile_def

lemma subscribedTopics_append [simp]:
  "subscribedTopics (xs @ ys) = subscribedTopics xs @ subscribedTopics ys"
  by (induction xs rule: subscribedTopics.induct) simp_all

lemma published_append [simp]: "published (xs @ ys) = published xs @ published ys"
  by (induction xs rule: published.induct) simp_all

lemma fileWrites_append [simp]: "fileWrites (xs @ ys) = fileWrites xs @ fileWrites ys"
  by (induction xs rule: fileWrites.induct) simp_all

lemma filesRead_append [simp]: "filesRead (xs @ ys) = filesRead xs @ filesRead ys"
  by (induction xs rule: filesRead.induct) simp_all

lemma topics_distinct:
  "distinct [topicCreateCertificate, topicCreateAccepted, topicCreateRejected,
     topicRegisterThing, topicRegisterAccepted, topicRegisterRejected]"
  by (simp add: topic_defs)

text \<open>The operations of \<open>createMQTTClient\<close>: two or three reads and at most a connection.\<close>

lemma createMQTTClient_ops:
  "fst (createMQTTClient w c k a) \<in>
     {[OpLoadX509KeyPair c k],
      [OpLoadX509KeyPair c k, OpReadFile a],
      [OpLoadX509KeyPair c k, OpReadFile a, OpConnect brokerURL clientID]}"
  by (simp add: createMQTTClient_def split: option.splits sum.splits token.splits)

lemma createMQTTClient_observed:
  "subscribedTopics (fst (createMQTTClient w c k a)) = []"
  "published (fst (createMQTTClient w c k a)) = []"
  "fileWrites (fst (createMQTTClient w c k a)) = []"
  "set (filesRead (fst (createMQTTClient w c k a))) \<subseteq> {c, k, a}"
  using createMQTTClient_ops [of w c k a] by auto

lemma requestCertificate_observed:
  "set (subscribedTopics (fst (requestCertificate w))) \<subseteq> {topicCreateAccepted, topicCreateRejected}"
  "set (map fst (published (fst (requestCertificate w)))) \<subseteq> {topicCreateCertificate}"
  "fileWrites (fst (requestCertificate w)) = []"
  "set (filesRead (fst (requestCertificate w))) \<subseteq> {certificateFile, privateKeyFile, rootCAFile}"
  using createMQTTClient_observed [of w certificateFile privateKeyFile rootCAFile]
  by (auto simp: requestCertificate_def Let_def split: prod.splits option.splits sum.splits token.splits)

lemma requestRegistration_observed:
  "set (subscribedTopics (fst (requestRegistration w r))) \<subseteq> {topicRegisterAccepted, topicRegisterRejected}"
  "set (map fst (published (fst (requestRegistration w r)))) \<subseteq> {topicRegisterThing}"
  "set (map fst (fileWrites (fst (requestRegistration w r)))) \<subseteq> {permanentCertFile, permanentKeyFile}"
  "filesRead (fst (requestRegistration w r)) = []"
  by (auto simp: requestRegistration_def Let_def split: prod.splits option.splits sum.splits token.splits)

lemma requestCertificate_elems:
  "t \<in> set (subscribedTopics (fst (requestCertificate w))) \<Longrightarrow>
     t = topicCreateAccepted \<or> t = topicCreateRejected"
  "(t, p) \<in> set (published (fst (requestCertificate w))) \<Longrightarrow> t = topicCreateCertificate"
  "f \<in> set (filesRead (fst (requestCertificate w))) \<Longrightarrow>
     f = certificateFile \<or> f = privateKeyFile \<or> f = rootCAFile"
  using requestCertificate_observed [of w] by auto

lemma requestRegistration_elems:
  "t \<in> set (subscribedTopics (fst (requestRegistration w r))) \<Longrightarrow>
     t = topicRegisterAccepted \<or> t = topicRegisterRejected"
  "(t, p) \<in> set (published (fst (requestRegistration w r))) \<Longrightarrow> t = topicRegisterThing"
  "(f, d, m) \<in> set (fileWrites (fst (requestRegistration w r))) \<Longrightarrow>
     f = permanentCertFile \<or> f = permanentKeyFile"
  using requestRegistration_observed [of w r] by auto

lemma no_registration_in_requestCertificate:
  "filter touchesRegistration (fst (requestCertificate w)) = []"
  using createMQTTClient_ops [of w certificateFile privateKeyFile rootCAFile]
  by (auto simp: requestCertificate_def Let_def registrationTopics_def topic_defs
      split: prod.splits option.splits sum.splits token.splits)

text \<open>The shape of a run: where it stops, and what it has performed by then.\<close>

lemma main_cases:
  obtains
    (stopped) x where "snd (requestCertificate w) = Some x"
      and "main w = (fst (requestCertificate w), x)"
  | (failure) err where "snd (requestCertificate w) = None"
      and "fst (firstSelect w) = Failure err"
      and "main w = (fst (requestCertificate w), Fatal (''Certificate creation failed: '' @ err))"
  | (timeout) "snd (requestCertificate w) = None"
      and "fst (firstSelect w) = TimedOut"
      and "main w = (fst (requestCertificate w),
             Fatal ''Timeout waiting for certificate creation response'')"
  | (stopped2) r x where "snd (requestCertificate w) = None"
      and "fst (firstSelect w) = Success r"
      and "snd (requestRegistration w r) = Some x"
      and "main w = (fst (requestCertificate w) @ fst (requestRegistration w r), x)"
  | (failure2) r t ms ch err where "snd (requestCertificate w) = None"
      and "firstSelect w = (Success r, t, ms, ch)"
      and "snd (requestRegistration w r) = None"
      and "fst (secondSelect w t ms ch) = Failure err"
      and "main w = (fst (requestCertificate w) @ fst (requestRegistration w r),
             Fatal (''Thing registration failed: '' @ err))"
  | (timeout2) r t ms ch where "snd (requestCertificate w) = None"
      and "firstSelect w = (Success r, t, ms, ch)"
      and "snd (requestRegistration w r) = None"
      and "fst (secondSelect w t ms ch) = TimedOut"
      and "main w = (fst (requestCertificate w) @ fst (requestRegistration w r),
             Fatal ''Timeout waiting for thing registration response'')"
  | (registered) r t ms ch r2 where "snd (requestCertificate w) = None"
      and "firstSelect w = (Success r, t, ms, ch)"
      and "snd (requestRegistration w r) = None"
      and "fst (secondSelect w t ms ch) = Success r2"
      and "main w = (fst (requestCertificate w) @ fst (requestRegistration w r) @
             [OpLog (''Successfully registered thing: '' @ ThingName r2),
              OpLog (''Device configuration: '' @ fmtConfig w (DeviceConfiguration r2)),
              OpLog ''Device provisioning test complete'',
              OpDisconnect 250], Returned)"
proof (cases "requestCertificate w")
  case rc: (Pair tr1 x1)
  show ?thesis
  proof (cases x1)
    case (Some x)
    with rc show ?thesis by (intro stopped [of x]) (simp_all add: main_def)
  next
    case None
    note n1 = this
    obtain o1 t ms ch where fs: "firstSelect w = (o1, t, ms, ch)"
      by (cases "firstSelect w") auto
    show ?thesis
    proof (cases o1)
      case (Failure err)
      with rc n1 fs show ?thesis by (intro failure [of err]) (simp_all add: main_def)
    next
      case TimedOut
      with rc n1 fs show ?thesis by (intro timeout) (simp_all add: main_def)
    next
      case (Success r)
      note s1 = this
      obtain tr2 x2 where rr: "requestRegistration w r = (tr2, x2)"
        by (cases "requestRegistration w r") auto
      show ?thesis
      proof (cases x2)
        case (Some x)
        with rc n1 fs s1 rr show ?thesis by (intro stopped2 [of r x]) (simp_all add: main_def)
      next
        case None
        note n2 = this
        obtain o2 rest where ss: "secondSelect w t ms ch = (o2, rest)"
          by (cases "secondSelect w t ms ch") auto
        show ?thesis
        proof (cases o2)
          case (Failure err)
          with rc n1 fs s1 rr n2 ss show ?thesis
            by (intro failure2 [of r t ms ch err]) (simp_all add: main_def)
        next
          case TimedOut
          with rc n1 fs s1 rr n2 ss show ?thesis
            by (intro timeout2 [of r t ms ch]) (simp_all add: main_def)
        next
          case (Success r2)
          with rc n1 fs s1 rr n2 ss show ?thesis
            by (intro registered [of r t ms ch r2]) (simp_all add: main_def)
        qed
      qed
    qed
  qed
qed

text \<open>
  The callbacks that the delivery thread has at each \<open>select\<close> are those of the
  subscriptions made by then.
\<close>

lemma subscriptions_in_force:
  "snd (requestCertificate w) = None \<Longrightarrow>
     subscribedTopics (fst (requestCertificate w)) = map fst subsCreate"
  "snd (requestCertificate w) = None \<Longrightarrow> snd (requestRegistration w r) = None \<Longrightarrow>
     subscribedTopics (fst (requestCertificate w) @ fst (requestRegistration w r)) =
       map fst subsAll"
proof -
  have 1: "subscribedTopics (fst (requestCertificate w)) = map fst subsCreate"
    if "snd (requestCertificate w) = None"
    using that createMQTTClient_ops [of w certificateFile privateKeyFile rootCAFile]
    by (auto simp: requestCertificate_def Let_def subsCreate_def
        split: prod.splits option.splits sum.splits token.splits)
  have 2: "subscribedTopics (fst (requestRegistration w r)) =
      [topicRegisterAccepted, topicRegisterRejected]"
    if "snd (requestRegistration w r) = None"
    using that
    by (auto simp: requestRegistration_def Let_def split: option.splits sum.splits token.splits)
  show "snd (requestCertificate w) = None \<Longrightarrow>
     subscribedTopics (fst (requestCertificate w)) = map fst subsCreate"
    by (rule 1)
  show "snd (requestCertificate w) = None \<Longrightarrow> snd (requestRegistration w r) = None \<Longrightarrow>
     subscribedTopics (fst (requestCertificate w) @ fst (requestRegistration w r)) =
       map fst subsAll"
    using 1 2 by (simp add: subsAll_def)
qed

section \<open>Routing, sending and the delivery thread\<close>

lemma route_subsCreate:
  "route w subsCreate m =
     (if topic m = topicCreateAccepted then Some (onCreateAccepted w (payload m))
      else if topic m = topicCreateRejected then Some (onCreateRejected (payload m))
      else None)"
  by (simp add: route_def subsCreate_def)

lemma route_subsAll:
  "route w subsAll m =
     (if topic m = topicCreateAccepted then Some (onCreateAccepted w (payload m))
      else if topic m = topicCreateRejected then Some (onCreateRejected (payload m))
      else if topic m = topicRegisterAccepted then Some (onRegisterAccepted w (payload m))
      else if topic m = topicRegisterRejected then Some (onRegisterRejected (payload m))
      else None)"
  by (simp add: route_def subsAll_def subsCreate_def)

text \<open>What a callback can send.\<close>

lemma onCreateAccepted_cases:
  "onCreateAccepted w p = ToCertResponse r \<longleftrightarrow> unmarshalCert w p = Inr r"
  "onCreateAccepted w p = ToCertError e \<longleftrightarrow>
     (\<exists>d. unmarshalCert w p = Inl d \<and> e = ''failed to unmarshal certificate response: '' @ d)"
  "onCreateAccepted w p \<noteq> ToRegisterResponse r2"
  "onCreateAccepted w p \<noteq> ToRegisterError e"
  by (auto simp: onCreateAccepted_def split: sum.splits)


lemma route_subsCreate_response:
  "route w subsCreate m = Some (ToCertResponse r) \<longleftrightarrow>
     topic m = topicCreateAccepted \<and> unmarshalCert w (payload m) = Inr r"
  using topics_distinct
  by (auto simp: route_subsCreate onCreateAccepted_cases onCreateRejected_def)



lemma route_rejected:
  "topic m = topicCreateRejected \<Longrightarrow>
     route w subsCreate m = Some (ToCertError (''certificate creation rejected: '' @ payload m))"
  by (simp add: route_subsCreate onCreateRejected_def topic_defs)

text \<open>A send changes the channel it fills and no other; a full channel stays as it is.\<close>

lemma send_frame:
  assumes "send ch s = Some ch'"
  shows "(\<forall>r. s \<noteq> ToCertResponse r) \<Longrightarrow> certResponseChan ch' = certResponseChan ch"
    and "(\<forall>e. s \<noteq> ToCertError e) \<Longrightarrow> certErrorChan ch' = certErrorChan ch"
    and "(\<forall>r. s \<noteq> ToRegisterResponse r) \<Longrightarrow> registerResponseChan ch' = registerResponseChan ch"
    and "(\<forall>e. s \<noteq> ToRegisterError e) \<Longrightarrow> registerErrorChan ch' = registerErrorChan ch"
  using assms by (cases s; auto split: if_splits)+

lemma send_full:
  assumes "send ch s = Some ch'"
  shows "certResponseChan ch = Some r \<Longrightarrow> certResponseChan ch' = Some r"
    and "certErrorChan ch = Some e \<Longrightarrow> certErrorChan ch' = Some e"
    and "registerResponseChan ch = Some r2 \<Longrightarrow> registerResponseChan ch' = Some r2"
    and "registerErrorChan ch = Some e \<Longrightarrow> registerErrorChan ch' = Some e"
  using assms by (cases s; auto split: if_splits)+

lemma deliver_pending_subset: "set (fst (deliver w subs ms ch)) \<subseteq> set ms"
  by (induction ms arbitrary: ch) (auto split: option.splits)

lemma deliver_full:
  shows "certResponseChan ch = Some r \<Longrightarrow>
           certResponseChan (snd (deliver w subs ms ch)) = Some r"
    and "certErrorChan ch = Some e \<Longrightarrow> certErrorChan (snd (deliver w subs ms ch)) = Some e"
    and "registerResponseChan ch = Some r2 \<Longrightarrow>
           registerResponseChan (snd (deliver w subs ms ch)) = Some r2"
    and "registerErrorChan ch = Some e \<Longrightarrow>
           registerErrorChan (snd (deliver w subs ms ch)) = Some e"
  by (induction ms arbitrary: ch; auto split: option.splits dest: send_full)+

lemma deliver_frame:
  shows "\<forall>m\<in>set ms. \<forall>r. route w subs m \<noteq> Some (ToCertResponse r) \<Longrightarrow>
           certResponseChan (snd (deliver w subs ms ch)) = certResponseChan ch"
    and "\<forall>m\<in>set ms. \<forall>e. route w subs m \<noteq> Some (ToCertError e) \<Longrightarrow>
           certErrorChan (snd (deliver w subs ms ch)) = certErrorChan ch"
    and "\<forall>m\<in>set ms. \<forall>r. route w subs m \<noteq> Some (ToRegisterResponse r) \<Longrightarrow>
           registerResponseChan (snd (deliver w subs ms ch)) = registerResponseChan ch"
    and "\<forall>m\<in>set ms. \<forall>e. route w subs m \<noteq> Some (ToRegisterError e) \<Longrightarrow>
           registerErrorChan (snd (deliver w subs ms ch)) = registerErrorChan ch"
  by (induction ms arbitrary: ch; auto split: option.splits dest: send_frame)+

section \<open>Where a received value comes from\<close>

lemma pollCert_None:
  "pollCert pick ch = None \<longleftrightarrow> certResponseChan ch = None \<and> certErrorChan ch = None"
  by (auto simp: pollCert_def split: option.splits)

lemma pollRegister_None:
  "pollRegister pick ch = None \<longleftrightarrow>
     registerResponseChan ch = None \<and> registerErrorChan ch = None"
  by (auto simp: pollRegister_def split: option.splits)

lemma pollCert_Success:
  "pollCert pick ch = Some (Success r, ch') \<Longrightarrow> certResponseChan ch = Some r"
  by (auto simp: pollCert_def split: option.splits if_splits)

lemma pollCert_Failure:
  "pollCert pick ch = Some (Failure e, ch') \<Longrightarrow> certErrorChan ch = Some e"
  by (auto simp: pollCert_def split: option.splits if_splits)

lemma pollCert_not_TimedOut: "pollCert pick ch \<noteq> Some (TimedOut, ch')"
  by (auto simp: pollCert_def split: option.splits if_splits)

lemma pollRegister_not_TimedOut: "pollRegister pick ch \<noteq> Some (TimedOut, ch')"
  by (auto simp: pollRegister_def split: option.splits if_splits)

lemma send_certResponse:
  "send ch s = Some ch' \<Longrightarrow> certResponseChan ch' = Some r \<Longrightarrow>
     certResponseChan ch = Some r \<or> s = ToCertResponse r"
  by (cases s) (auto split: if_splits)

lemma deliver_certResponse:
  "certResponseChan (snd (deliver w subs ms ch)) = Some r \<Longrightarrow>
     certResponseChan ch = Some r \<or> (\<exists>m\<in>set ms. route w subs m = Some (ToCertResponse r))"
proof (induction ms arbitrary: ch)
  case Nil
  then show ?case by simp
next
  case (Cons m ms)
  show ?case
  proof (cases "route w subs m")
    case None
    with Cons show ?thesis by auto
  next
    case (Some s)
    show ?thesis
    proof (cases "send ch s")
      case None
      with Some Cons.prems show ?thesis by simp
    next
      case ch': (Some ch')
      with Some Cons.prems have "certResponseChan (snd (deliver w subs ms ch')) = Some r"
        by simp
      from Cons.IH [OF this] show ?thesis
        using send_certResponse [OF ch'] Some by auto
    qed
  qed
qed

lemma await_certResponse:
  "fst (await w subs (pollCert pick) t0 d ms ch) = Success r \<Longrightarrow>
     certResponseChan ch = None \<Longrightarrow>
     \<exists>m\<in>set ms. route w subs m = Some (ToCertResponse r)"
proof (induction ms arbitrary: ch)
  case Nil
  then show ?case by simp
next
  case (Cons m ms)
  show ?case
  proof (cases "t0 + d \<le> arrival m")
    case True
    with Cons.prems show ?thesis by simp
  next
    case late: False
    show ?thesis
    proof (cases "route w subs m")
      case None
      with late Cons show ?thesis by auto
    next
      case (Some s)
      show ?thesis
      proof (cases "send ch s")
        case None
        with late Some Cons.prems show ?thesis by simp
      next
        case ch': (Some ch')
        show ?thesis
        proof (cases "pollCert pick ch'")
          case None
          then have "certResponseChan ch' = None" by (simp add: pollCert_None)
          moreover from None late Some ch' Cons.prems
          have "fst (await w subs (pollCert pick) t0 d ms ch') = Success r" by simp
          ultimately show ?thesis using Cons.IH by auto
        next
          case (Some res)
          obtain out ch'' where res: "res = (out, ch'')" by (cases res)
          with Some late \<open>route w subs m = Some s\<close> ch' Cons.prems
          have "out = Success r" by simp
          with Some res have "certResponseChan ch' = Some r"
            using pollCert_Success by blast
          with send_certResponse [OF ch'] Cons.prems(2) have "s = ToCertResponse r"
            by auto
          with \<open>route w subs m = Some s\<close> show ?thesis by auto
        qed
      qed
    qed
  qed
qed

lemma selectOn_certResponse:
  assumes "fst (selectOn w subs (pollCert pick) t0 d msgs ch) = Success r"
    and "certResponseChan ch = None"
  shows "\<exists>m\<in>set msgs. route w subs m = Some (ToCertResponse r)"
proof -
  let ?early = "takeWhile (\<lambda>m. arrival m \<le> t0) msgs"
  let ?later = "dropWhile (\<lambda>m. arrival m \<le> t0) msgs"
  obtain blocked ch1 where dl: "deliver w subs ?early ch = (blocked, ch1)"
    by (cases "deliver w subs ?early ch")
  have sub: "set blocked \<subseteq> set msgs" "set ?early \<subseteq> set msgs" "set ?later \<subseteq> set msgs"
    using deliver_pending_subset [of w subs ?early ch] dl
    by (auto dest: set_takeWhileD set_dropWhileD)
  show ?thesis
  proof (cases "pollCert pick ch1")
    case None
    then have "certResponseChan ch1 = None" by (simp add: pollCert_None)
    moreover from None dl assms(1)
    have "fst (await w subs (pollCert pick) t0 d (blocked @ ?later) ch1) = Success r"
      by (simp add: selectOn_def)
    ultimately obtain m where "m \<in> set (blocked @ ?later)"
      "route w subs m = Some (ToCertResponse r)"
      using await_certResponse by blast
    with sub show ?thesis by auto
  next
    case (Some res)
    obtain out ch2 where res: "res = (out, ch2)" by (cases res)
    with Some dl assms(1) have "out = Success r" by (simp add: selectOn_def)
    with Some res have "certResponseChan ch1 = Some r" using pollCert_Success by blast
    with dl deliver_certResponse [of w subs ?early ch r] assms(2)
    obtain m where "m \<in> set ?early" "route w subs m = Some (ToCertResponse r)" by auto
    with sub show ?thesis by auto
  qed
qed

lemma firstSelect_Success_origin:
  assumes "fst (firstSelect w) = Success r"
  shows "\<exists>m\<in>set (inbox w). topic m = topicCreateAccepted \<and> unmarshalCert w (payload m) = Inr r"
proof -
  from assms obtain m where m: "m \<in> set (inbox w)"
    "route w subsCreate m = Some (ToCertResponse r)"
    using selectOn_certResponse [of w subsCreate "pickFirst w" "firstSelectAt w" "10 * Second"
        "inbox w" noChans r]
    by (auto simp: firstSelect_def noChans_def)
  from m(2) have "topic m = topicCreateAccepted \<and> unmarshalCert w (payload m) = Inr r"
    by (auto simp: route_subsCreate onCreateAccepted_cases onCreateRejected_def
        split: if_splits)
  with m(1) show ?thesis by blast
qed

section \<open>The timer\<close>

lemma await_cert_TimedOut:
  assumes "\<forall>m\<in>set ms. arrival m < t0 + d \<longrightarrow>
             (\<forall>r. route w subs m \<noteq> Some (ToCertResponse r)) \<and>
             (\<forall>e. route w subs m \<noteq> Some (ToCertError e))"
    and "certResponseChan ch = None" and "certErrorChan ch = None"
  shows "fst (await w subs (pollCert pick) t0 d ms ch) = TimedOut"
  using assms
proof (induction ms arbitrary: ch)
  case Nil
  then show ?case by simp
next
  case (Cons m ms)
  show ?case
  proof (cases "t0 + d \<le> arrival m")
    case True
    then show ?thesis by simp
  next
    case early: False
    show ?thesis
    proof (cases "route w subs m")
      case None
      with early Cons show ?thesis by simp
    next
      case (Some s)
      with early Cons.prems(1) have s: "\<forall>r. s \<noteq> ToCertResponse r" "\<forall>e. s \<noteq> ToCertError e"
        by auto
      show ?thesis
      proof (cases "send ch s")
        case None
        with early Some show ?thesis by simp
      next
        case ch': (Some ch')
        from send_frame(1,2) [OF ch'] s Cons.prems(2,3)
        have empty: "certResponseChan ch' = None" "certErrorChan ch' = None" by simp_all
        then have "pollCert pick ch' = None" by (simp add: pollCert_None)
        with early Some ch' Cons.IH [OF _ empty] Cons.prems(1) show ?thesis by simp
      qed
    qed
  qed
qed

lemma await_register_TimedOut:
  assumes "\<forall>m\<in>set ms. arrival m < t0 + d \<longrightarrow>
             (\<forall>r. route w subs m \<noteq> Some (ToRegisterResponse r)) \<and>
             (\<forall>e. route w subs m \<noteq> Some (ToRegisterError e))"
    and "registerResponseChan ch = None" and "registerErrorChan ch = None"
  shows "fst (await w subs (pollRegister pick) t0 d ms ch) = TimedOut"
  using assms
proof (induction ms arbitrary: ch)
  case Nil
  then show ?case by simp
next
  case (Cons m ms)
  show ?case
  proof (cases "t0 + d \<le> arrival m")
    case True
    then show ?thesis by simp
  next
    case early: False
    show ?thesis
    proof (cases "route w subs m")
      case None
      with early Cons show ?thesis by simp
    next
      case (Some s)
      with early Cons.prems(1)
      have s: "\<forall>r. s \<noteq> ToRegisterResponse r" "\<forall>e. s \<noteq> ToRegisterError e"
        by auto
      show ?thesis
      proof (cases "send ch s")
        case None
        with early Some show ?thesis by simp
      next
        case ch': (Some ch')
        from send_frame(3,4) [OF ch'] s Cons.prems(2,3)
        have empty: "registerResponseChan ch' = None" "registerErrorChan ch' = None"
          by simp_all
        then have "pollRegister pick ch' = None" by (simp add: pollRegister_None)
        with early Some ch' Cons.IH [OF _ empty] Cons.prems(1) show ?thesis by simp
      qed
    qed
  qed
qed

text \<open>
  A \<open>select\<close> whose two channels get nothing before the deadline takes the timer case,
  whatever arrives at the deadline or later.
\<close>

lemma selectOn_cert_TimedOut:
  assumes quiet: "\<forall>m\<in>set msgs. arrival m < t0 + d \<longrightarrow>
             (\<forall>r. route w subs m \<noteq> Some (ToCertResponse r)) \<and>
             (\<forall>e. route w subs m \<noteq> Some (ToCertError e))"
    and empty: "certResponseChan ch = None" "certErrorChan ch = None"
    and d: "0 < d"
  shows "fst (selectOn w subs (pollCert pick) t0 d msgs ch) = TimedOut"
proof -
  let ?early = "takeWhile (\<lambda>m. arrival m \<le> t0) msgs"
  let ?later = "dropWhile (\<lambda>m. arrival m \<le> t0) msgs"
  obtain blocked ch1 where dl: "deliver w subs ?early ch = (blocked, ch1)"
    by (cases "deliver w subs ?early ch")
  have sub: "set blocked \<subseteq> set msgs" "set ?early \<subseteq> set msgs" "set ?later \<subseteq> set msgs"
    using deliver_pending_subset [of w subs ?early ch] dl
    by (auto dest: set_takeWhileD set_dropWhileD)
  have "\<forall>m\<in>set ?early. arrival m < t0 + d"
    using d by (auto dest: set_takeWhileD)
  with quiet sub(2) have q: "\<forall>m\<in>set ?early. \<forall>r. route w subs m \<noteq> Some (ToCertResponse r)"
    "\<forall>m\<in>set ?early. \<forall>e. route w subs m \<noteq> Some (ToCertError e)"
    by blast+
  from deliver_frame(1) [OF q(1), of ch] deliver_frame(2) [OF q(2), of ch] dl empty
  have empty1: "certResponseChan ch1 = None" "certErrorChan ch1 = None" by simp_all
  then have "pollCert pick ch1 = None" by (simp add: pollCert_None)
  moreover have "fst (await w subs (pollCert pick) t0 d (blocked @ ?later) ch1) = TimedOut"
    using quiet sub by (intro await_cert_TimedOut empty1) auto
  ultimately show ?thesis using dl by (simp add: selectOn_def)
qed

lemma selectOn_register_TimedOut:
  assumes quiet: "\<forall>m\<in>set msgs. arrival m < t0 + d \<longrightarrow>
             (\<forall>r. route w subs m \<noteq> Some (ToRegisterResponse r)) \<and>
             (\<forall>e. route w subs m \<noteq> Some (ToRegisterError e))"
    and empty: "registerResponseChan ch = None" "registerErrorChan ch = None"
    and d: "0 < d"
  shows "fst (selectOn w subs (pollRegister pick) t0 d msgs ch) = TimedOut"
proof -
  let ?early = "takeWhile (\<lambda>m. arrival m \<le> t0) msgs"
  let ?later = "dropWhile (\<lambda>m. arrival m \<le> t0) msgs"
  obtain blocked ch1 where dl: "deliver w subs ?early ch = (blocked, ch1)"
    by (cases "deliver w subs ?early ch")
  have sub: "set blocked \<subseteq> set msgs" "set ?early \<subseteq> set msgs" "set ?later \<subseteq> set msgs"
    using deliver_pending_subset [of w subs ?early ch] dl
    by (auto dest: set_takeWhileD set_dropWhileD)
  have "\<forall>m\<in>set ?early. arrival m < t0 + d"
    using d by (auto dest: set_takeWhileD)
  with quiet sub(2)
  have q: "\<forall>m\<in>set ?early. \<forall>r. route w subs m \<noteq> Some (ToRegisterResponse r)"
    "\<forall>m\<in>set ?early. \<forall>e. route w subs m \<noteq> Some (ToRegisterError e)"
    by blast+
  from deliver_frame(3) [OF q(1), of ch] deliver_frame(4) [OF q(2), of ch] dl empty
  have empty1: "registerResponseChan ch1 = None" "registerErrorChan ch1 = None"
    by simp_all
  then have "pollRegister pick ch1 = None" by (simp add: pollRegister_None)
  moreover
  have "fst (await w subs (pollRegister pick) t0 d (blocked @ ?later) ch1) = TimedOut"
    using quiet sub by (intro await_register_TimedOut empty1) auto
  ultimately show ?thesis using dl by (simp add: selectOn_def)
qed

lemma route_subsCreate_quiet:
  assumes "topic m \<noteq> topicCreateAccepted" and "topic m \<noteq> topicCreateRejected"
  shows "route w subsCreate m = None"
  using assms by (simp add: route_subsCreate)

lemma route_subsAll_quiet:
  assumes "topic m \<noteq> topicRegisterAccepted" and "topic m \<noteq> topicRegisterRejected"
  shows "route w subsAll m \<noteq> Some (ToRegisterResponse r)"
    and "route w subsAll m \<noteq> Some (ToRegisterError e)"
  using assms
  by (simp_all add: route_subsAll onCreateAccepted_cases onCreateRejected_def)

lemma firstSelect_quiet:
  assumes "\<forall>m\<in>set (inbox w).
      topic m = topicCreateAccepted \<or> topic m = topicCreateRejected \<longrightarrow>
      firstSelectAt w + 10 * Second \<le> arrival m"
  shows "fst (firstSelect w) = TimedOut"
  unfolding firstSelect_def
proof (rule selectOn_cert_TimedOut)
  show "\<forall>m\<in>set (inbox w). arrival m < firstSelectAt w + 10 * Second \<longrightarrow>
      (\<forall>r. route w subsCreate m \<noteq> Some (ToCertResponse r)) \<and>
      (\<forall>e. route w subsCreate m \<noteq> Some (ToCertError e))"
    using assms by (auto simp: route_subsCreate_quiet)
qed (simp_all add: noChans_def Second_def)

lemma secondSelect_quiet:
  assumes "\<forall>m\<in>set msgs.
      topic m = topicRegisterAccepted \<or> topic m = topicRegisterRejected \<longrightarrow>
      t + secondSelectDelay w + 10 * Second \<le> arrival m"
  shows "fst (secondSelect w t msgs ch) = TimedOut"
  unfolding secondSelect_def
proof (rule selectOn_register_TimedOut)
  show "\<forall>m\<in>set msgs. arrival m < t + secondSelectDelay w + 10 * Second \<longrightarrow>
      (\<forall>r. route w subsAll m \<noteq> Some (ToRegisterResponse r)) \<and>
      (\<forall>e. route w subsAll m \<noteq> Some (ToRegisterError e))"
    using assms by (auto simp: route_subsAll_quiet)
qed (simp_all add: Second_def)

lemma selectOn_cert_in_time:
  assumes m: "arrival m < t0 + d" "route w subs m = Some s"
    and s: "(\<exists>r. s = ToCertResponse r) \<or> (\<exists>e. s = ToCertError e)"
    and empty: "certResponseChan ch = None" "certErrorChan ch = None"
  shows "fst (selectOn w subs (pollCert pick) t0 d (m # ms) ch) \<noteq> TimedOut"
proof -
  from s empty obtain ch' where sent: "send ch s = Some ch'"
    and full: "certResponseChan ch' \<noteq> None \<or> certErrorChan ch' \<noteq> None"
    by auto
  show ?thesis
  proof (cases "arrival m \<le> t0")
    case True
    let ?rest = "takeWhile (\<lambda>m. arrival m \<le> t0) ms"
    have early: "deliver w subs (takeWhile (\<lambda>m. arrival m \<le> t0) (m # ms)) ch =
        deliver w subs ?rest ch'"
      using True m(2) sent by simp
    obtain blocked ch1 where dl: "deliver w subs ?rest ch' = (blocked, ch1)"
      by (cases "deliver w subs ?rest ch'")
    from full deliver_full(1,2) [of ch' _ w subs ?rest] dl
    have "certResponseChan ch1 \<noteq> None \<or> certErrorChan ch1 \<noteq> None" by fastforce
    then obtain out ch2 where p: "pollCert pick ch1 = Some (out, ch2)"
      using pollCert_None [of pick ch1] by (cases "pollCert pick ch1") auto
    then have "out \<noteq> TimedOut" using pollCert_not_TimedOut by blast
    with early dl p show ?thesis
      by (simp add: selectOn_def del: takeWhile.simps dropWhile.simps)
  next
    case False
    have none: "pollCert pick ch = None" using empty by (simp add: pollCert_None)
    from full obtain out ch2 where p: "pollCert pick ch' = Some (out, ch2)"
      using pollCert_None [of pick ch'] by (cases "pollCert pick ch'") auto
    then have "out \<noteq> TimedOut" using pollCert_not_TimedOut by blast
    with False m none sent p show ?thesis by (simp add: selectOn_def)
  qed
qed

lemma selectOn_register_in_time:
  assumes m: "arrival m < t0 + d" "route w subs m = Some s"
    and s: "(\<exists>r. s = ToRegisterResponse r) \<or> (\<exists>e. s = ToRegisterError e)"
    and empty: "registerResponseChan ch = None" "registerErrorChan ch = None"
  shows "fst (selectOn w subs (pollRegister pick) t0 d (m # ms) ch) \<noteq> TimedOut"
proof -
  from s empty obtain ch' where sent: "send ch s = Some ch'"
    and full: "registerResponseChan ch' \<noteq> None \<or> registerErrorChan ch' \<noteq> None"
    by auto
  show ?thesis
  proof (cases "arrival m \<le> t0")
    case True
    let ?rest = "takeWhile (\<lambda>m. arrival m \<le> t0) ms"
    have early: "deliver w subs (takeWhile (\<lambda>m. arrival m \<le> t0) (m # ms)) ch =
        deliver w subs ?rest ch'"
      using True m(2) sent by simp
    obtain blocked ch1 where dl: "deliver w subs ?rest ch' = (blocked, ch1)"
      by (cases "deliver w subs ?rest ch'")
    from full deliver_full(3,4) [of ch' _ w subs ?rest] dl
    have "registerResponseChan ch1 \<noteq> None \<or> registerErrorChan ch1 \<noteq> None" by fastforce
    then obtain out ch2 where p: "pollRegister pick ch1 = Some (out, ch2)"
      using pollRegister_None [of pick ch1] by (cases "pollRegister pick ch1") auto
    then have "out \<noteq> TimedOut" using pollRegister_not_TimedOut by blast
    with early dl p show ?thesis
      by (simp add: selectOn_def del: takeWhile.simps dropWhile.simps)
  next
    case False
    have none: "pollRegister pick ch = None" using empty by (simp add: pollRegister_None)
    from full obtain out ch2 where p: "pollRegister pick ch' = Some (out, ch2)"
      using pollRegister_None [of pick ch'] by (cases "pollRegister pick ch'") auto
    then have "out \<noteq> TimedOut" using pollRegister_not_TimedOut by blast
    with False m none sent p show ?thesis by (simp add: selectOn_def)
  qed
qed

lemma firstSelect_in_time:
  assumes "inbox w = m # ms"
    and "topic m = topicCreateAccepted \<or> topic m = topicCreateRejected"
    and "arrival m < firstSelectAt w + 10 * Second"
  shows "fst (firstSelect w) \<noteq> TimedOut"
  unfolding firstSelect_def assms(1)
proof (rule selectOn_cert_in_time [OF assms(3)])
  show "route w subsCreate m =
      Some (if topic m = topicCreateAccepted then onCreateAccepted w (payload m)
            else onCreateRejected (payload m))"
    using assms(2) by (auto simp: route_subsCreate)
  show "(\<exists>r. (if topic m = topicCreateAccepted then onCreateAccepted w (payload m)
            else onCreateRejected (payload m)) = ToCertResponse r) \<or>
        (\<exists>e. (if topic m = topicCreateAccepted then onCreateAccepted w (payload m)
            else onCreateRejected (payload m)) = ToCertError e)"
    by (auto simp: onCreateAccepted_def onCreateRejected_def split: sum.splits)
qed (simp_all add: noChans_def)

lemma secondSelect_in_time:
  assumes "topic m = topicRegisterAccepted \<or> topic m = topicRegisterRejected"
    and "arrival m < t + secondSelectDelay w + 10 * Second"
  shows "fst (secondSelect w t (m # ms) ch) \<noteq> TimedOut"
  unfolding secondSelect_def
proof (rule selectOn_register_in_time [OF assms(2)])
  show "route w subsAll m =
      Some (if topic m = topicRegisterAccepted then onRegisterAccepted w (payload m)
            else onRegisterRejected (payload m))"
    using assms(1) by (auto simp: route_subsAll topic_defs)
  show "(\<exists>r. (if topic m = topicRegisterAccepted then onRegisterAccepted w (payload m)
            else onRegisterRejected (payload m)) = ToRegisterResponse r) \<or>
        (\<exists>e. (if topic m = topicRegisterAccepted then onRegisterAccepted w (payload m)
            else onRegisterRejected (payload m)) = ToRegisterError e)"
    by (auto simp: onRegisterAccepted_def onRegisterRejected_def split: sum.splits)
qed simp_all

text \<open>A publication that is never acknowledged: the main thread stays in \<open>token.Wait()\<close>.\<close>

lemma requestCertificate_unacknowledged:
  assumes "snd (createMQTTClient w certificateFile privateKeyFile rootCAFile) = Some (Inr ())"
    and "jsonMarshal w createCertPayload = Inr p"
    and "publish w topicCreateCertificate p = NeverCompletes"
  shows "snd (requestCertificate w) = Some Blocked"
  using assms
  by (auto simp: requestCertificate_def Let_def split: prod.splits option.splits sum.splits)

lemma requestRegistration_unacknowledged:
  assumes "writeFile w permanentCertFile (CertificatePem r) mode0644 = None"
    and "writeFile w permanentKeyFile (PrivateKey r) mode0600 = None"
    and "jsonMarshal w (registerThingPayload r) = Inr p"
    and "publish w topicRegisterThing p = NeverCompletes"
  shows "snd (requestRegistration w r) = Some Blocked"
  using assms by (simp add: requestRegistration_def)

section \<open>The first delivery\<close>

lemma pollCert_only_error:
  "certResponseChan ch = None \<Longrightarrow> certErrorChan ch = Some e \<Longrightarrow>
     pollCert pick ch = Some (Failure e, ch\<lparr>certErrorChan := None\<rparr>)"
  by (simp add: pollCert_def)




text \<open>
  The first message to arrive decides a \<open>select\<close> when it arrives before the deadline and
  nothing has been put on the other channel by the time the \<open>select\<close> is entered.
\<close>

lemma selectOn_first_cert_error:
  assumes m: "arrival m < t0 + d" "route w subs m = Some (ToCertError e)"
    and empty: "certResponseChan ch = None" "certErrorChan ch = None"
    and other: "\<forall>m'\<in>set ms. arrival m' \<le> t0 \<longrightarrow>
                  (\<forall>r. route w subs m' \<noteq> Some (ToCertResponse r))"
  shows "fst (selectOn w subs (pollCert pick) t0 d (m # ms) ch) = Failure e"
proof (cases "arrival m \<le> t0")
  case True
  let ?rest = "takeWhile (\<lambda>m. arrival m \<le> t0) ms"
  let ?ch = "ch\<lparr>certErrorChan := Some e\<rparr>"
  have sent: "send ch (ToCertError e) = Some ?ch" using empty by simp
  have early: "deliver w subs (takeWhile (\<lambda>m. arrival m \<le> t0) (m # ms)) ch =
      deliver w subs ?rest ?ch"
    using True m(2) sent by simp
  obtain blocked ch1 where dl: "deliver w subs ?rest ?ch = (blocked, ch1)"
    by (cases "deliver w subs ?rest ?ch")
  have "\<forall>m'\<in>set ?rest. \<forall>r. route w subs m' \<noteq> Some (ToCertResponse r)"
    using other by (auto dest: set_takeWhileD)
  from deliver_frame(1) [OF this, of ?ch] deliver_full(2) [of ?ch e w subs ?rest] dl empty
  have "certResponseChan ch1 = None" "certErrorChan ch1 = Some e" by simp_all
  then have "pollCert pick ch1 = Some (Failure e, ch1\<lparr>certErrorChan := None\<rparr>)"
    by (rule pollCert_only_error)
  with early dl show ?thesis by (simp add: selectOn_def del: takeWhile.simps dropWhile.simps)
next
  case False
  let ?ch = "ch\<lparr>certErrorChan := Some e\<rparr>"
  have "pollCert pick ch = None" using empty by (simp add: pollCert_None)
  moreover have "pollCert pick ?ch = Some (Failure e, ?ch\<lparr>certErrorChan := None\<rparr>)"
    using empty by (intro pollCert_only_error) simp_all
  ultimately show ?thesis using False m empty by (simp add: selectOn_def)
qed




lemma firstSelect_first_error:
  assumes "inbox w = m # ms" and "arrival m < firstSelectAt w + 10 * Second"
    and "route w subsCreate m = Some (ToCertError e)"
    and "\<forall>m'\<in>set ms. arrival m' \<le> firstSelectAt w \<longrightarrow>
           (\<forall>r. route w subsCreate m' \<noteq> Some (ToCertResponse r))"
  shows "fst (firstSelect w) = Failure e"
  unfolding firstSelect_def assms(1)
  by (rule selectOn_first_cert_error [OF assms(2,3) _ _ assms(4)])
    (simp_all add: noChans_def)




text \<open>
  An error and then a response, both handled before the \<open>select\<close> is entered: both
  channels are ready, and the choice is Go's.
\<close>

lemma firstSelect_both_ready:
  assumes "inbox w = m # m2 # ms"
    and "arrival m \<le> firstSelectAt w" and "arrival m2 \<le> firstSelectAt w"
    and "route w subsCreate m = Some (ToCertError e)"
    and "route w subsCreate m2 = Some (ToCertResponse r)"
  shows "fst (firstSelect w) = (if pickFirst w then Success r else Failure e)"
proof -
  let ?t0 = "firstSelectAt w"
  let ?rest = "takeWhile (\<lambda>m. arrival m \<le> ?t0) ms"
  let ?ch = "noChans\<lparr>certErrorChan := Some e, certResponseChan := Some r\<rparr>"
  have early: "deliver w subsCreate (takeWhile (\<lambda>m. arrival m \<le> ?t0) (m # m2 # ms)) noChans =
      deliver w subsCreate ?rest ?ch"
    using assms(2-5) by (simp add: noChans_def)
  obtain blocked ch1 where dl: "deliver w subsCreate ?rest ?ch = (blocked, ch1)"
    by (cases "deliver w subsCreate ?rest ?ch")
  from deliver_full(1) [of ?ch r w subsCreate ?rest] deliver_full(2) [of ?ch e w subsCreate ?rest]
    dl
  have "certResponseChan ch1 = Some r" "certErrorChan ch1 = Some e" by simp_all
  then have "fst (the (pollCert (pickFirst w) ch1)) =
      (if pickFirst w then Success r else Failure e)"
    "pollCert (pickFirst w) ch1 \<noteq> None"
    by (simp_all add: pollCert_def)
  with early dl show ?thesis
    unfolding firstSelect_def assms(1)
    by (auto simp add: selectOn_def simp del: takeWhile.simps dropWhile.simps
        split: option.splits)
qed












section \<open>The scenarios, evaluated\<close>

lemmas select_defs = firstSelect_def secondSelect_def selectOn_def route_subsCreate route_subsAll
  onCreateAccepted_def onCreateRejected_def onRegisterAccepted_def onRegisterRejected_def
  pollCert_def pollRegister_def noChans_def msg_def Second_def topic_defs

lemma requestCertificate_scenario:
  "requestCertificate (scenarioWorld msgs pick) = (scenarioRequestOps, None)"
  by (simp add: requestCertificate_def createMQTTClient_def scenarioWorld_def
      createCertPayload_def scenarioMarshal_def scenarioRequestOps_def)

lemma requestRegistration_scenario:
  "requestRegistration (scenarioWorld msgs pick) scenarioCertResponse =
     (scenarioSaveOps @ scenarioSubscribeOps @
        [OpPublish topicRegisterThing 1 False scenarioRegistrationPayload], None)"
  by (simp add: requestRegistration_def scenarioWorld_def registerThingPayload_def
      scenarioMarshal_def templateParams_def scenarioCertResponse_def serialNumber_def
      scenarioSaveOps_def scenarioSubscribeOps_def scenarioRegistrationPayload_def)


lemma firstSelect_happy:
  "firstSelect happyWorld =
     (Success scenarioCertResponse, 4 * Second,
      [msg (8 * Second) topicRegisterAccepted ''registration-json''], noChans)"
  by (simp add: happyWorld_def scenarioWorld_def select_defs)

lemma secondSelect_happy:
  "fst (secondSelect happyWorld (4 * Second)
      [msg (8 * Second) topicRegisterAccepted ''registration-json''] noChans) =
     Success scenarioRegisterResponse"
  by (simp add: happyWorld_def scenarioWorld_def select_defs)

lemma main_happy:
  "main happyWorld =
     (scenarioRequestOps @ scenarioSaveOps @ scenarioSubscribeOps @
        [OpPublish topicRegisterThing 1 False scenarioRegistrationPayload] @ scenarioDoneOps,
      Returned)"
proof -
  have 1: "requestCertificate happyWorld = (scenarioRequestOps, None)"
    unfolding happyWorld_def by (rule requestCertificate_scenario)
  have 2: "requestRegistration happyWorld scenarioCertResponse =
     (scenarioSaveOps @ scenarioSubscribeOps @
        [OpPublish topicRegisterThing 1 False scenarioRegistrationPayload], None)"
    unfolding happyWorld_def by (rule requestRegistration_scenario)
  obtain rest where 3: "secondSelect happyWorld (4 * Second)
      [msg (8 * Second) topicRegisterAccepted ''registration-json''] noChans =
     (Success scenarioRegisterResponse, rest)"
    using secondSelect_happy by (metis prod.collapse)
  have 4: "fmtConfig happyWorld c = ''map[x:1]''" for c
    by (simp add: happyWorld_def scenarioWorld_def)
  show ?thesis
    by (simp add: main_def 1 2 3 4 firstSelect_happy scenarioDoneOps_def
        scenarioRegisterResponse_def)
qed

lemma firstSelect_rejected:
  "fst (firstSelect rejectedWorld) = Failure ''certificate creation rejected: quota exceeded''"
  by (simp add: rejectedWorld_def scenarioWorld_def select_defs)


lemma firstSelect_late: "fst (firstSelect lateWorld) = TimedOut"
  by (simp add: lateWorld_def scenarioWorld_def select_defs)



lemma firstSelect_lateRegistration:
  "firstSelect lateRegistrationWorld =
     (Success scenarioCertResponse, 4 * Second,
      [msg (18 * Second) topicRegisterAccepted ''registration-json''], noChans)"
  by (simp add: lateRegistrationWorld_def scenarioWorld_def select_defs)

lemma reaches_scenarios:
  "snd (requestCertificate happyWorld) = None"
  "snd (requestCertificate rejectedWorld) = None"
  "snd (requestCertificate malformedWorld) = None"
  "snd (requestCertificate lateWorld) = None"
  "snd (requestCertificate lateRegistrationWorld) = None"
  "snd (requestCertificate (raceWorld pick)) = None"
  "snd (requestCertificate malformedRaceWorld) = None"
  by (simp_all add: happyWorld_def rejectedWorld_def malformedWorld_def lateWorld_def
      lateRegistrationWorld_def raceWorld_def malformedRaceWorld_def
      requestCertificate_scenario)

lemma race_inbox:
  "inbox (raceWorld pick) =
     [msg Second topicCreateRejected ''quota exceeded'',
      msg (2 * Second) topicCreateAccepted ''certificate-json'',
      msg (8 * Second) topicRegisterAccepted ''registration-json'']"
  "firstSelectAt (raceWorld pick) = 3 * Second"
  "pickFirst (raceWorld pick) = pick"
  by (simp_all add: raceWorld_def scenarioWorld_def)

lemma main_race:
  "main (raceWorld True) =
     (scenarioRequestOps @ scenarioSaveOps @ scenarioSubscribeOps @
        [OpPublish topicRegisterThing 1 False scenarioRegistrationPayload] @ scenarioDoneOps,
      Returned)"
proof -
  let ?ch = "noChans\<lparr>certErrorChan := Some ''certificate creation rejected: quota exceeded''\<rparr>
      :: nat chans"
  let ?ms = "[msg (8 * Second) topicRegisterAccepted ''registration-json'']"
  have 1: "requestCertificate (raceWorld True) = (scenarioRequestOps, None)"
    unfolding raceWorld_def by (rule requestCertificate_scenario)
  have 2: "requestRegistration (raceWorld True) scenarioCertResponse =
     (scenarioSaveOps @ scenarioSubscribeOps @
        [OpPublish topicRegisterThing 1 False scenarioRegistrationPayload], None)"
    unfolding raceWorld_def by (rule requestRegistration_scenario)
  have 3: "firstSelect (raceWorld True) = (Success scenarioCertResponse, 3 * Second, ?ms, ?ch)"
    by (simp add: raceWorld_def scenarioWorld_def select_defs)
  have "fst (secondSelect (raceWorld True) (3 * Second) ?ms ?ch) = Success scenarioRegisterResponse"
    by (simp add: raceWorld_def scenarioWorld_def select_defs)
  then obtain rest where 4: "secondSelect (raceWorld True) (3 * Second) ?ms ?ch =
     (Success scenarioRegisterResponse, rest)"
    by (metis prod.collapse)
  have 5: "fmtConfig (raceWorld True) c = ''map[x:1]''" for c
    by (simp add: raceWorld_def scenarioWorld_def)
  show ?thesis
    by (simp add: main_def 1 2 3 4 5 scenarioDoneOps_def scenarioRegisterResponse_def)
qed

lemma diskFull_evaluated:
  "snd (requestCertificate diskFullWorld) = None"
  "fst (firstSelect diskFullWorld) = Success scenarioCertResponse"
  "writeFile diskFullWorld permanentCertFile ''CERTDATA'' mode0644 = None"
  "writeFile diskFullWorld permanentKeyFile ''KEYDATA'' mode0600 =
     Some ''no space left on device''"
proof -
  show "snd (requestCertificate diskFullWorld) = None"
    by (simp add: diskFullWorld_def happyWorld_def requestCertificate_def
        createMQTTClient_def scenarioWorld_def createCertPayload_def scenarioMarshal_def)
  show "fst (firstSelect diskFullWorld) = Success scenarioCertResponse"
    by (simp add: diskFullWorld_def happyWorld_def scenarioWorld_def select_defs)
  show "writeFile diskFullWorld permanentCertFile ''CERTDATA'' mode0644 = None"
    by (simp add: diskFullWorld_def file_defs)
  show "writeFile diskFullWorld permanentKeyFile ''KEYDATA'' mode0600 =
     Some ''no space left on device''"
    by (simp add: diskFullWorld_def)
qed

lemma readOnly_evaluated:
  "snd (requestCertificate readOnlyWorld) = None"
  "fst (firstSelect readOnlyWorld) = Success scenarioCertResponse"
  "writeFile readOnlyWorld permanentCertFile ''CERTDATA'' mode0644 = Some ''permission denied''"
proof -
  show "snd (requestCertificate readOnlyWorld) = None"
    by (simp add: readOnlyWorld_def happyWorld_def requestCertificate_def
        createMQTTClient_def scenarioWorld_def createCertPayload_def scenarioMarshal_def)
  show "fst (firstSelect readOnlyWorld) = Success scenarioCertResponse"
    by (simp add: readOnlyWorld_def happyWorld_def scenarioWorld_def select_defs)
  show "writeFile readOnlyWorld permanentCertFile ''CERTDATA'' mode0644 =
      Some ''permission denied''"
    by (simp add: readOnlyWorld_def)
qed

section \<open>C1: Step B only after a successful Step A\<close>

text \<open>
  C1. The registration step is performed only if the first \<open>select\<close> receives a certificate
  response: a run that subscribes or publishes on a registration topic has reached the first
  \<open>select\<close> and received a response there. If the first \<open>select\<close> receives an error
  or its timer fires, the run ends in \<open>log.Fatal\<close> with that reason, having performed only
  the operations up to the certificate request, none of them on a registration topic.
\<close>

theorem registration_only_after_success:
  "(filter touchesRegistration (fst (main w)) \<noteq> [] \<longrightarrow>
      snd (requestCertificate w) = None \<and> (\<exists>r. fst (firstSelect w) = Success r)) \<and>
   (snd (requestCertificate w) = None \<and> fst (firstSelect w) = Failure err \<longrightarrow>
      main w = (fst (requestCertificate w), Fatal (''Certificate creation failed: '' @ err)) \<and>
      filter touchesRegistration (fst (main w)) = []) \<and>
   (snd (requestCertificate w) = None \<and> fst (firstSelect w) = TimedOut \<longrightarrow>
      main w = (fst (requestCertificate w),
                Fatal ''Timeout waiting for certificate creation response'') \<and>
      filter touchesRegistration (fst (main w)) = [])"
  by (cases w rule: main_cases) (auto simp: no_registration_in_requestCertificate)

theorem registration_only_after_success_witness:
  "filter touchesRegistration (fst (main happyWorld)) \<noteq> [] \<and>
   snd (requestCertificate happyWorld) = None \<and>
   fst (firstSelect happyWorld) = Success scenarioCertResponse \<and>
   snd (requestCertificate rejectedWorld) = None \<and>
   fst (firstSelect rejectedWorld) = Failure ''certificate creation rejected: quota exceeded'' \<and>
   main rejectedWorld =
     (scenarioRequestOps,
      Fatal ''Certificate creation failed: certificate creation rejected: quota exceeded'') \<and>
   filter touchesRegistration (fst (main rejectedWorld)) = [] \<and>
   snd (requestCertificate lateWorld) = None \<and>
   fst (firstSelect lateWorld) = TimedOut \<and>
   main lateWorld =
     (scenarioRequestOps, Fatal ''Timeout waiting for certificate creation response'') \<and>
   filter touchesRegistration (fst (main lateWorld)) = []"
proof -
  have ops: "fst (requestCertificate rejectedWorld) = scenarioRequestOps"
    "fst (requestCertificate lateWorld) = scenarioRequestOps"
    by (simp_all add: rejectedWorld_def lateWorld_def requestCertificate_scenario)
  have reg: "filter touchesRegistration (fst (main happyWorld)) \<noteq> []"
    by (simp add: main_happy registrationTopics_def)
  have none: "filter touchesRegistration scenarioRequestOps = []"
    by (simp add: scenarioRequestOps_def registrationTopics_def topic_defs)
  from registration_only_after_success [of happyWorld]
    registration_only_after_success [of rejectedWorld
      "''certificate creation rejected: quota exceeded''"]
    registration_only_after_success [of lateWorld]
    reg none ops reaches_scenarios firstSelect_happy firstSelect_rejected firstSelect_late
  show ?thesis by simp
qed

section \<open>C2: the saved certificate and key\<close>

lemma requestRegistration_writes:
  "fileWrites (fst (requestRegistration w r)) =
     (if writeFile w permanentCertFile (CertificatePem r) mode0644 = None
      then [(permanentCertFile, CertificatePem r, mode0644),
            (permanentKeyFile, PrivateKey r, mode0600)]
      else [(permanentCertFile, CertificatePem r, mode0644)])"
  by (auto simp: requestRegistration_def Let_def split: option.splits sum.splits token.splits)

lemma requestRegistration_write_fails:
  assumes "writeFile w permanentCertFile (CertificatePem r) mode0644 = Some e1 \<or>
           (writeFile w permanentCertFile (CertificatePem r) mode0644 = None \<and>
            writeFile w permanentKeyFile (PrivateKey r) mode0600 = Some e2)"
  shows "snd (requestRegistration w r) =
           Some (Fatal (if writeFile w permanentCertFile (CertificatePem r) mode0644 = None
                        then ''Failed to write permanent private key to file: '' @ e2
                        else ''Failed to write permanent certificate to file: '' @ e1))"
    and "filter touchesRegistration (fst (requestRegistration w r)) = []"
  using assms by (auto simp: requestRegistration_def Let_def)

lemma main_after_Success:
  assumes "snd (requestCertificate w) = None" and "fst (firstSelect w) = Success r"
  shows "fileWrites (fst (main w)) = fileWrites (fst (requestRegistration w r))"
    and "snd (requestRegistration w r) = Some x \<Longrightarrow>
           snd (main w) = x \<and>
           fst (main w) = fst (requestCertificate w) @ fst (requestRegistration w r)"
  using assms
  by (cases w rule: main_cases; simp add: requestCertificate_observed)+

text \<open>
  C2. When the first \<open>select\<close> receives a certificate response, that response is what
  \<open>json.Unmarshal\<close> made of the payload of a message on the accept topic, and the run
  calls \<open>os.WriteFile\<close> with exactly its \<open>CertificatePem\<close> for the certificate file, mode
  \<open>0644\<close> (readable by all), and then with exactly its \<open>PrivateKey\<close> for the
  private-key file, mode \<open>0600\<close> (owner only). The bytes written are the decoded fields
  and nothing else of the payload. If either write fails the run ends in \<open>log.Fatal\<close>
  with nothing performed on a registration topic; the key is not written when the
  certificate could not be.
\<close>

theorem certificate_and_key_saved:
  assumes "snd (requestCertificate w) = None" and "fst (firstSelect w) = Success r"
  shows "(\<exists>m\<in>set (inbox w). topic m = topicCreateAccepted \<and>
            unmarshalCert w (payload m) = Inr r) \<and>
         fileWrites (fst (main w)) =
           (if writeFile w permanentCertFile (CertificatePem r) mode0644 = None
            then [(permanentCertFile, CertificatePem r, mode0644),
                  (permanentKeyFile, PrivateKey r, mode0600)]
            else [(permanentCertFile, CertificatePem r, mode0644)]) \<and>
         mode0644 div 64 = 6 \<and> mode0644 div 8 mod 8 = 4 \<and> mode0644 mod 8 = 4 \<and>
         mode0600 div 64 = 6 \<and> mode0600 mod 64 = 0 \<and>
         (writeFile w permanentCertFile (CertificatePem r) mode0644 = Some e \<longrightarrow>
            snd (main w) = Fatal (''Failed to write permanent certificate to file: '' @ e) \<and>
            filter touchesRegistration (fst (main w)) = []) \<and>
         (writeFile w permanentCertFile (CertificatePem r) mode0644 = None \<and>
          writeFile w permanentKeyFile (PrivateKey r) mode0600 = Some e \<longrightarrow>
            snd (main w) = Fatal (''Failed to write permanent private key to file: '' @ e) \<and>
            filter touchesRegistration (fst (main w)) = [])"
proof -
  have origin: "\<exists>m\<in>set (inbox w). topic m = topicCreateAccepted \<and>
      unmarshalCert w (payload m) = Inr r"
    using assms(2) by (rule firstSelect_Success_origin)
  have writes: "fileWrites (fst (main w)) =
           (if writeFile w permanentCertFile (CertificatePem r) mode0644 = None
            then [(permanentCertFile, CertificatePem r, mode0644),
                  (permanentKeyFile, PrivateKey r, mode0600)]
            else [(permanentCertFile, CertificatePem r, mode0644)])"
    using main_after_Success(1) [OF assms] by (simp only: requestRegistration_writes)
  have modes: "mode0644 div 64 = 6 \<and> mode0644 div 8 mod 8 = 4 \<and> mode0644 mod 8 = 4 \<and>
         mode0600 div 64 = 6 \<and> mode0600 mod 64 = 0"
    by (simp add: mode0644_def mode0600_def)
  have cert: "snd (main w) = Fatal (''Failed to write permanent certificate to file: '' @ e) \<and>
      filter touchesRegistration (fst (main w)) = []"
    if f: "writeFile w permanentCertFile (CertificatePem r) mode0644 = Some e"
  proof -
    from f have "snd (requestRegistration w r) =
        Some (Fatal (''Failed to write permanent certificate to file: '' @ e))"
      "filter touchesRegistration (fst (requestRegistration w r)) = []"
      using requestRegistration_write_fails [of w r e] by simp_all
    with main_after_Success(2) [OF assms] show ?thesis
      by (simp add: no_registration_in_requestCertificate)
  qed
  have key: "snd (main w) = Fatal (''Failed to write permanent private key to file: '' @ e) \<and>
      filter touchesRegistration (fst (main w)) = []"
    if f: "writeFile w permanentCertFile (CertificatePem r) mode0644 = None"
      "writeFile w permanentKeyFile (PrivateKey r) mode0600 = Some e"
  proof -
    from f have "snd (requestRegistration w r) =
        Some (Fatal (''Failed to write permanent private key to file: '' @ e))"
      "filter touchesRegistration (fst (requestRegistration w r)) = []"
      using requestRegistration_write_fails [of w r _ e] by simp_all
    with main_after_Success(2) [OF assms] show ?thesis
      by (simp add: no_registration_in_requestCertificate)
  qed
  from origin writes modes cert key show ?thesis by blast
qed

theorem certificate_and_key_saved_witness:
  "snd (requestCertificate happyWorld) = None \<and>
   fst (firstSelect happyWorld) = Success scenarioCertResponse \<and>
   fileWrites (fst (main happyWorld)) =
     [(permanentCertFile, ''CERTDATA'', mode0644), (permanentKeyFile, ''KEYDATA'', mode0600)] \<and>
   snd (requestCertificate diskFullWorld) = None \<and>
   fst (firstSelect diskFullWorld) = Success scenarioCertResponse \<and>
   writeFile diskFullWorld permanentCertFile ''CERTDATA'' mode0644 = None \<and>
   writeFile diskFullWorld permanentKeyFile ''KEYDATA'' mode0600 =
     Some ''no space left on device'' \<and>
   fileWrites (fst (main diskFullWorld)) =
     [(permanentCertFile, ''CERTDATA'', mode0644), (permanentKeyFile, ''KEYDATA'', mode0600)] \<and>
   snd (main diskFullWorld) =
     Fatal ''Failed to write permanent private key to file: no space left on device'' \<and>
   filter touchesRegistration (fst (main diskFullWorld)) = [] \<and>
   snd (requestCertificate readOnlyWorld) = None \<and>
   fst (firstSelect readOnlyWorld) = Success scenarioCertResponse \<and>
   writeFile readOnlyWorld permanentCertFile ''CERTDATA'' mode0644 =
     Some ''permission denied'' \<and>
   fileWrites (fst (main readOnlyWorld)) = [(permanentCertFile, ''CERTDATA'', mode0644)] \<and>
   snd (main readOnlyWorld) =
     Fatal ''Failed to write permanent certificate to file: permission denied'' \<and>
   filter touchesRegistration (fst (main readOnlyWorld)) = []"
proof -
  have happy: "snd (requestCertificate happyWorld) = None"
    "fst (firstSelect happyWorld) = Success scenarioCertResponse"
    by (simp_all add: reaches_scenarios firstSelect_happy)
  have fields: "CertificatePem scenarioCertResponse = ''CERTDATA''"
    "PrivateKey scenarioCertResponse = ''KEYDATA''"
    by (simp_all add: scenarioCertResponse_def)
  have ok: "writeFile happyWorld f d m = None" for f d m
    by (simp add: happyWorld_def scenarioWorld_def)
  from certificate_and_key_saved [OF happy, of "''none''"]
    certificate_and_key_saved [OF diskFull_evaluated(1,2), of "''no space left on device''"]
    certificate_and_key_saved [OF readOnly_evaluated(1,2), of "''permission denied''"]
    happy diskFull_evaluated readOnly_evaluated fields ok
  show ?thesis by simp
qed

section \<open>C3: the registration request\<close>

lemma requestRegistration_published:
  assumes "(t, p) \<in> set (published (fst (requestRegistration w r)))"
  shows "t = topicRegisterThing \<and> jsonMarshal w (registerThingPayload r) = Inr p"
  using assms
  by (auto simp: requestRegistration_def Let_def split: option.splits sum.splits token.splits)

text \<open>
  C3. Every request that a run publishes on the registration topic is what
  \<open>json.Marshal\<close> returns for the object with the two entries
  \<open>certificateOwnershipToken\<close>, the token of the certificate response that the first
  \<open>select\<close> received (itself decoded from a message on the accept topic), and
  \<open>parameters\<close>, the string-to-string map with the one entry \<open>SerialNumber\<close> set to
  the configured serial number.
\<close>

theorem registration_request_payload:
  assumes "(topicRegisterThing, p) \<in> set (published (fst (main w)))"
  shows "\<exists>r. fst (firstSelect w) = Success r \<and>
           (\<exists>m\<in>set (inbox w). topic m = topicCreateAccepted \<and>
              unmarshalCert w (payload m) = Inr r) \<and>
           jsonMarshal w
             (GoMap [(''certificateOwnershipToken'', GoString (CertificateOwnershipToken r)),
                     (''parameters'', GoStringMap [(''SerialNumber'', serialNumber)])]) = Inr p"
proof -
  have not_first: "(topicRegisterThing, p) \<notin> set (published (fst (requestCertificate w)))"
    using topics_distinct by (auto dest: requestCertificate_elems(2))
  have found: "\<exists>r. fst (firstSelect w) = Success r \<and>
      (topicRegisterThing, p) \<in> set (published (fst (requestRegistration w r)))"
    using assms not_first by (cases w rule: main_cases) auto
  then obtain r where r: "fst (firstSelect w) = Success r"
    "(topicRegisterThing, p) \<in> set (published (fst (requestRegistration w r)))"
    by blast
  from r(2) have "jsonMarshal w (registerThingPayload r) = Inr p"
    by (auto dest: requestRegistration_published)
  then have "jsonMarshal w
      (GoMap [(''certificateOwnershipToken'', GoString (CertificateOwnershipToken r)),
              (''parameters'', GoStringMap [(''SerialNumber'', serialNumber)])]) = Inr p"
    by (simp add: registerThingPayload_def templateParams_def)
  with r(1) firstSelect_Success_origin [OF r(1)] show ?thesis by blast
qed

theorem registration_request_payload_witness:
  "(topicRegisterThing, scenarioRegistrationPayload) \<in> set (published (fst (main happyWorld))) \<and>
   fst (firstSelect happyWorld) = Success scenarioCertResponse \<and>
   CertificateOwnershipToken scenarioCertResponse = ''tok123'' \<and>
   jsonMarshal happyWorld
     (GoMap [(''certificateOwnershipToken'', GoString ''tok123''),
             (''parameters'', GoStringMap [(''SerialNumber'', serialNumber)])]) =
     Inr scenarioRegistrationPayload"
proof -
  have pub: "(topicRegisterThing, scenarioRegistrationPayload) \<in>
      set (published (fst (main happyWorld)))"
    by (simp add: main_happy)
  from registration_request_payload [OF pub] firstSelect_happy pub show ?thesis
    by (auto simp: scenarioCertResponse_def)
qed

section \<open>C4: a payload that does not parse\<close>










section \<open>C5: one outcome, decided by the first delivery\<close>






section \<open>C6: timeouts\<close>

lemma requestRegistration_Fatal:
  assumes "snd (requestRegistration w r) = Some (Fatal x)"
  shows "take 1 x = ''F''"
  using assms
  by (auto simp: requestRegistration_def Let_def split: option.splits sum.splits token.splits)

lemma slow_evaluated:
  "inbox slowWorld = [msg (12 * Second) topicCreateAccepted ''certificate-json'']"
  "firstSelectAt slowWorld = 3 * Second"
  "fst (firstSelect slowWorld) = Success scenarioCertResponse"
  by (simp_all add: slowWorld_def scenarioWorld_def select_defs)

lemma unacknowledged_evaluated:
  "snd (createMQTTClient unacknowledgedWorld certificateFile privateKeyFile rootCAFile) =
     Some (Inr ())"
  "jsonMarshal unacknowledgedWorld createCertPayload = Inr ''certificateSigningRequest=''"
  "publish unacknowledgedWorld topicCreateCertificate ''certificateSigningRequest='' =
     NeverCompletes"
  "main unacknowledgedWorld = (scenarioRequestOps, Blocked)"
  by (simp_all add: unacknowledgedWorld_def lateWorld_def scenarioWorld_def
      createMQTTClient_def createCertPayload_def scenarioMarshal_def main_def
      requestCertificate_def scenarioRequestOps_def)

lemma registrationUnacknowledged_evaluated:
  "snd (requestCertificate registrationUnacknowledgedWorld) = None"
  "fst (firstSelect registrationUnacknowledgedWorld) = Success scenarioCertResponse"
  "writeFile registrationUnacknowledgedWorld permanentCertFile ''CERTDATA'' mode0644 = None"
  "writeFile registrationUnacknowledgedWorld permanentKeyFile ''KEYDATA'' mode0600 = None"
  "jsonMarshal registrationUnacknowledgedWorld (registerThingPayload scenarioCertResponse) =
     Inr scenarioRegistrationPayload"
  "publish registrationUnacknowledgedWorld topicRegisterThing scenarioRegistrationPayload =
     NeverCompletes"
proof -
  show "snd (requestCertificate registrationUnacknowledgedWorld) = None"
    by (simp add: registrationUnacknowledgedWorld_def happyWorld_def requestCertificate_def
        createMQTTClient_def scenarioWorld_def createCertPayload_def scenarioMarshal_def
        topic_defs)
  show "fst (firstSelect registrationUnacknowledgedWorld) = Success scenarioCertResponse"
    by (simp add: registrationUnacknowledgedWorld_def happyWorld_def scenarioWorld_def
        select_defs)
  show "writeFile registrationUnacknowledgedWorld permanentCertFile ''CERTDATA'' mode0644 = None"
    "writeFile registrationUnacknowledgedWorld permanentKeyFile ''KEYDATA'' mode0600 = None"
    "publish registrationUnacknowledgedWorld topicRegisterThing scenarioRegistrationPayload =
       NeverCompletes"
    by (simp_all add: registrationUnacknowledgedWorld_def happyWorld_def scenarioWorld_def)
  show "jsonMarshal registrationUnacknowledgedWorld
      (registerThingPayload scenarioCertResponse) = Inr scenarioRegistrationPayload"
    by (simp add: registrationUnacknowledgedWorld_def happyWorld_def scenarioWorld_def
        scenarioMarshal_def registerThingPayload_def templateParams_def
        scenarioCertResponse_def scenarioRegistrationPayload_def serialNumber_def)
qed

text \<open>
  C6 as stated fails where the budget is counted from the publication. The main thread
  enters the first \<open>select\<close> 3 s after it has published the request, and an accept
  arrives 12 s after the publication, later than ten seconds: the exchange yields
  \<open>Success\<close>, not \<open>TimedOut\<close>. And when the publication is never acknowledged the main
  thread waits in \<open>token.Wait()\<close> for ever, whatever arrives or does not: no
  \<open>select\<close> is entered and nothing times out.
\<close>

theorem budget_counterexample:
  "inbox slowWorld = [msg (12 * Second) topicCreateAccepted ''certificate-json''] \<and>
   firstSelectAt slowWorld = 3 * Second \<and>
   10 * Second < arrival (msg (12 * Second) topicCreateAccepted ''certificate-json'') \<and>
   fst (firstSelect slowWorld) = Success scenarioCertResponse \<and>
   inbox unacknowledgedWorld = [msg (14 * Second) topicCreateAccepted ''certificate-json''] \<and>
   publish unacknowledgedWorld topicCreateCertificate ''certificateSigningRequest='' =
     NeverCompletes \<and>
   main unacknowledgedWorld = (scenarioRequestOps, Blocked)"
  by (simp add: slow_evaluated unacknowledged_evaluated)
    (simp add: msg_def Second_def unacknowledgedWorld_def lateWorld_def scenarioWorld_def)

text \<open>
  C6, amended. Both \<open>select\<close> statements wait with a timer of \<open>10 * time.Second\<close>,
  which starts when the \<open>select\<close> is entered, after \<open>token.Wait()\<close> on the publication
  has returned, and not when the request is published. If no message on the accept topic or
  the reject topic of the exchange arrives before that timer fires, the timer case is taken
  whatever arrives at that time or later, and the run ends in \<open>log.Fatal\<close> with the
  timeout message of that step. If the first message to arrive is on the accept topic or the
  reject topic of the exchange and arrives before the timer fires, the timer case is not
  taken, however long after the publication that is. For the second \<open>select\<close> the
  messages in question are those that the delivery thread had not handled when the first
  \<open>select\<close> received. While a publication is not acknowledged the main thread waits in
  \<open>token.Wait()\<close> without a time limit: no \<open>select\<close> is entered and the exchange
  yields no outcome.
\<close>

theorem timeout_without_delivery:
  "((\<forall>m\<in>set (inbox w).
       topic m = topicCreateAccepted \<or> topic m = topicCreateRejected \<longrightarrow>
       firstSelectAt w + 10 * Second \<le> arrival m) \<longrightarrow>
     fst (firstSelect w) = TimedOut \<and>
     (snd (requestCertificate w) = None \<longrightarrow>
        snd (main w) = Fatal ''Timeout waiting for certificate creation response'')) \<and>
   ((\<forall>m\<in>set msgs.
       topic m = topicRegisterAccepted \<or> topic m = topicRegisterRejected \<longrightarrow>
       t + secondSelectDelay w + 10 * Second \<le> arrival m) \<longrightarrow>
     fst (secondSelect w t msgs ch) = TimedOut \<and>
     (snd (requestCertificate w) = None \<and> firstSelect w = (Success r, t, msgs, ch) \<and>
      snd (requestRegistration w r) = None \<longrightarrow>
        snd (main w) = Fatal ''Timeout waiting for thing registration response'')) \<and>
   10 * Second = 10000000000 \<and>
   (inbox w = m # ms \<and>
    (topic m = topicCreateAccepted \<or> topic m = topicCreateRejected) \<and>
    arrival m < firstSelectAt w + 10 * Second \<longrightarrow>
      fst (firstSelect w) \<noteq> TimedOut \<and>
      (snd (requestCertificate w) = None \<longrightarrow>
         snd (main w) \<noteq> Fatal ''Timeout waiting for certificate creation response'')) \<and>
   ((topic m = topicRegisterAccepted \<or> topic m = topicRegisterRejected) \<and>
    arrival m < t + secondSelectDelay w + 10 * Second \<longrightarrow>
      fst (secondSelect w t (m # ms) ch) \<noteq> TimedOut \<and>
      (snd (requestCertificate w) = None \<and> firstSelect w = (Success r, t, m # ms, ch) \<and>
       snd (requestRegistration w r) = None \<longrightarrow>
         snd (main w) \<noteq> Fatal ''Timeout waiting for thing registration response'')) \<and>
   (snd (createMQTTClient w certificateFile privateKeyFile rootCAFile) = Some (Inr ()) \<and>
    jsonMarshal w createCertPayload = Inr p \<and>
    publish w topicCreateCertificate p = NeverCompletes \<longrightarrow>
      snd (main w) = Blocked) \<and>
   (snd (requestCertificate w) = None \<and> fst (firstSelect w) = Success r \<and>
    writeFile w permanentCertFile (CertificatePem r) mode0644 = None \<and>
    writeFile w permanentKeyFile (PrivateKey r) mode0600 = None \<and>
    jsonMarshal w (registerThingPayload r) = Inr p \<and>
    publish w topicRegisterThing p = NeverCompletes \<longrightarrow>
      snd (main w) = Blocked)"
proof -
  have first: "fst (firstSelect w) = TimedOut \<and>
     (snd (requestCertificate w) = None \<longrightarrow>
        snd (main w) = Fatal ''Timeout waiting for certificate creation response'')"
    if "\<forall>m\<in>set (inbox w).
       topic m = topicCreateAccepted \<or> topic m = topicCreateRejected \<longrightarrow>
       firstSelectAt w + 10 * Second \<le> arrival m"
  proof -
    from that have "fst (firstSelect w) = TimedOut" by (rule firstSelect_quiet)
    then show ?thesis by (cases w rule: main_cases) auto
  qed
  have second: "fst (secondSelect w t msgs ch) = TimedOut \<and>
     (snd (requestCertificate w) = None \<and> firstSelect w = (Success r, t, msgs, ch) \<and>
      snd (requestRegistration w r) = None \<longrightarrow>
        snd (main w) = Fatal ''Timeout waiting for thing registration response'')"
    if "\<forall>m\<in>set msgs.
       topic m = topicRegisterAccepted \<or> topic m = topicRegisterRejected \<longrightarrow>
       t + secondSelectDelay w + 10 * Second \<le> arrival m"
  proof -
    from that have "fst (secondSelect w t msgs ch) = TimedOut" by (rule secondSelect_quiet)
    then show ?thesis by (cases w rule: main_cases) auto
  qed
  have budget: "10 * Second = 10000000000" by (simp add: Second_def)
  have first_in: "fst (firstSelect w) \<noteq> TimedOut \<and>
      (snd (requestCertificate w) = None \<longrightarrow>
         snd (main w) \<noteq> Fatal ''Timeout waiting for certificate creation response'')"
    if "inbox w = m # ms" "topic m = topicCreateAccepted \<or> topic m = topicCreateRejected"
      "arrival m < firstSelectAt w + 10 * Second"
  proof -
    from that have "fst (firstSelect w) \<noteq> TimedOut" by (rule firstSelect_in_time)
    then show ?thesis
      by (cases w rule: main_cases) (auto dest: requestRegistration_Fatal)
  qed
  have second_in: "fst (secondSelect w t (m # ms) ch) \<noteq> TimedOut \<and>
      (snd (requestCertificate w) = None \<and> firstSelect w = (Success r, t, m # ms, ch) \<and>
       snd (requestRegistration w r) = None \<longrightarrow>
         snd (main w) \<noteq> Fatal ''Timeout waiting for thing registration response'')"
    if "topic m = topicRegisterAccepted \<or> topic m = topicRegisterRejected"
      "arrival m < t + secondSelectDelay w + 10 * Second"
  proof -
    from that have "fst (secondSelect w t (m # ms) ch) \<noteq> TimedOut"
      by (rule secondSelect_in_time)
    then show ?thesis by (cases w rule: main_cases) auto
  qed
  have blocked1: "snd (main w) = Blocked"
    if "snd (createMQTTClient w certificateFile privateKeyFile rootCAFile) = Some (Inr ())"
      "jsonMarshal w createCertPayload = Inr p"
      "publish w topicCreateCertificate p = NeverCompletes"
    using requestCertificate_unacknowledged [OF that]
    by (cases w rule: main_cases) auto
  have blocked2: "snd (main w) = Blocked"
    if "snd (requestCertificate w) = None" "fst (firstSelect w) = Success r"
      "writeFile w permanentCertFile (CertificatePem r) mode0644 = None"
      "writeFile w permanentKeyFile (PrivateKey r) mode0600 = None"
      "jsonMarshal w (registerThingPayload r) = Inr p"
      "publish w topicRegisterThing p = NeverCompletes"
    using requestRegistration_unacknowledged [OF that(3-6)] that(1,2)
    by (cases w rule: main_cases) auto
  from first second budget first_in second_in blocked1 blocked2 show ?thesis by blast
qed


theorem timeout_without_delivery_witness:
  "inbox lateWorld = [msg (14 * Second) topicCreateAccepted ''certificate-json''] \<and>
   firstSelectAt lateWorld + 10 * Second = 13 * Second \<and>
   snd (requestCertificate lateWorld) = None \<and>
   fst (firstSelect lateWorld) = TimedOut \<and>
   snd (main lateWorld) = Fatal ''Timeout waiting for certificate creation response'' \<and>
   firstSelect lateRegistrationWorld =
     (Success scenarioCertResponse, 4 * Second,
      [msg (18 * Second) topicRegisterAccepted ''registration-json''], noChans) \<and>
   4 * Second + secondSelectDelay lateRegistrationWorld + 10 * Second = 17 * Second \<and>
   snd (requestCertificate lateRegistrationWorld) = None \<and>
   snd (requestRegistration lateRegistrationWorld scenarioCertResponse) = None \<and>
   fst (secondSelect lateRegistrationWorld (4 * Second)
      [msg (18 * Second) topicRegisterAccepted ''registration-json''] noChans) = TimedOut \<and>
   snd (main lateRegistrationWorld) = Fatal ''Timeout waiting for thing registration response'' \<and>
   inbox slowWorld = [msg (12 * Second) topicCreateAccepted ''certificate-json''] \<and>
   firstSelectAt slowWorld + 10 * Second = 13 * Second \<and>
   fst (firstSelect slowWorld) \<noteq> TimedOut \<and>
   fst (firstSelect slowWorld) = Success scenarioCertResponse \<and>
   4 * Second + secondSelectDelay happyWorld + 10 * Second = 17 * Second \<and>
   fst (secondSelect happyWorld (4 * Second)
      [msg (8 * Second) topicRegisterAccepted ''registration-json''] noChans) \<noteq> TimedOut \<and>
   snd (main happyWorld) = Returned \<and>
   publish unacknowledgedWorld topicCreateCertificate ''certificateSigningRequest='' =
     NeverCompletes \<and>
   snd (main unacknowledgedWorld) = Blocked \<and>
   publish registrationUnacknowledgedWorld topicRegisterThing scenarioRegistrationPayload =
     NeverCompletes \<and>
   snd (main registrationUnacknowledgedWorld) = Blocked"
proof -
  have in1: "inbox lateWorld = [msg (14 * Second) topicCreateAccepted ''certificate-json'']"
    "firstSelectAt lateWorld + 10 * Second = 13 * Second"
    by (simp_all add: lateWorld_def scenarioWorld_def)
  have quiet1: "\<forall>m\<in>set (inbox lateWorld).
       topic m = topicCreateAccepted \<or> topic m = topicCreateRejected \<longrightarrow>
       firstSelectAt lateWorld + 10 * Second \<le> arrival m"
    by (simp add: in1 msg_def)
  have in2: "4 * Second + secondSelectDelay lateRegistrationWorld + 10 * Second = 17 * Second"
    "snd (requestRegistration lateRegistrationWorld scenarioCertResponse) = None"
    by (simp_all add: lateRegistrationWorld_def requestRegistration_scenario)
      (simp add: scenarioWorld_def)
  have quiet2: "\<forall>m\<in>set [msg (18 * Second) topicRegisterAccepted ''registration-json''].
       topic m = topicRegisterAccepted \<or> topic m = topicRegisterRejected \<longrightarrow>
       4 * Second + secondSelectDelay lateRegistrationWorld + 10 * Second \<le> arrival m"
    by (simp add: in2 msg_def)
  from timeout_without_delivery [of lateWorld "[]" 0 noChans scenarioCertResponse] quiet1
  have first: "fst (firstSelect lateWorld) = TimedOut"
    "snd (requestCertificate lateWorld) = None \<longrightarrow>
       snd (main lateWorld) = Fatal ''Timeout waiting for certificate creation response''"
    by blast+
  from timeout_without_delivery [of lateRegistrationWorld
      "[msg (18 * Second) topicRegisterAccepted ''registration-json'']" "4 * Second"
      noChans scenarioCertResponse] quiet2
  have second: "fst (secondSelect lateRegistrationWorld (4 * Second)
      [msg (18 * Second) topicRegisterAccepted ''registration-json''] noChans) = TimedOut"
    "snd (requestCertificate lateRegistrationWorld) = None \<and>
     firstSelect lateRegistrationWorld =
       (Success scenarioCertResponse, 4 * Second,
        [msg (18 * Second) topicRegisterAccepted ''registration-json''], noChans) \<and>
     snd (requestRegistration lateRegistrationWorld scenarioCertResponse) = None \<longrightarrow>
       snd (main lateRegistrationWorld) =
         Fatal ''Timeout waiting for thing registration response''"
    by blast+
  let ?slow = "msg (12 * Second) topicCreateAccepted ''certificate-json''"
  let ?registered = "msg (8 * Second) topicRegisterAccepted ''registration-json''"
  have in3: "inbox slowWorld = ?slow # []" "topic ?slow = topicCreateAccepted"
    "arrival ?slow < firstSelectAt slowWorld + 10 * Second"
    "firstSelectAt slowWorld + 10 * Second = 13 * Second"
    by (simp_all add: slowWorld_def scenarioWorld_def msg_def Second_def)
  from timeout_without_delivery [where w = slowWorld and m = ?slow and ms = "[]"] in3
  have third: "fst (firstSelect slowWorld) \<noteq> TimedOut" by blast
  have in4: "topic ?registered = topicRegisterAccepted"
    "arrival ?registered < 4 * Second + secondSelectDelay happyWorld + 10 * Second"
    "4 * Second + secondSelectDelay happyWorld + 10 * Second = 17 * Second"
    by (simp_all add: happyWorld_def scenarioWorld_def msg_def Second_def)
  from timeout_without_delivery [where w = happyWorld and m = ?registered and ms = "[]"
      and t = "4 * Second" and ch = noChans] in4
  have fourth: "fst (secondSelect happyWorld (4 * Second) [?registered] noChans) \<noteq> TimedOut"
    by blast
  from timeout_without_delivery [where w = unacknowledgedWorld
      and p = "''certificateSigningRequest=''"] unacknowledged_evaluated(1,2,3)
  have fifth: "snd (main unacknowledgedWorld) = Blocked" by blast
  have fields: "CertificatePem scenarioCertResponse = ''CERTDATA''"
    "PrivateKey scenarioCertResponse = ''KEYDATA''"
    by (simp_all add: scenarioCertResponse_def)
  from timeout_without_delivery [where w = registrationUnacknowledgedWorld
      and r = scenarioCertResponse and p = scenarioRegistrationPayload]
    registrationUnacknowledged_evaluated fields
  have sixth: "snd (main registrationUnacknowledgedWorld) = Blocked" by simp
  from first second third fourth fifth sixth in1 in2 in3(1,4) in4(3) reaches_scenarios(4,5)
    firstSelect_lateRegistration slow_evaluated(3) unacknowledged_evaluated(3)
    registrationUnacknowledged_evaluated(6) main_happy
  show ?thesis by simp
qed

section \<open>C7: subscriptions come before publications\<close>

lemma subscribedFirst_append:
  "subscribedFirst seen (xs @ ys) \<longleftrightarrow>
     subscribedFirst seen xs \<and> subscribedFirst (seen @ xs) ys"
  by (induction seen xs rule: subscribedFirst.induct) simp_all

lemma subscribedFirst_split:
  "subscribedFirst seen (pre @ OpPublish t q r p # post) \<Longrightarrow>
     OpSubscribe (t @ ''/accepted'') 1 \<in> set (seen @ pre) \<and>
     OpSubscribe (t @ ''/rejected'') 1 \<in> set (seen @ pre)"
  by (simp add: subscribedFirst_append)

lemma subscribedFirst_requestCertificate:
  "subscribedFirst [] (fst (requestCertificate w))"
  using createMQTTClient_ops [of w certificateFile privateKeyFile rootCAFile]
  by (auto simp: requestCertificate_def Let_def topic_defs subscribedFirst_append
      split: prod.splits option.splits sum.splits token.splits)

lemma subscribedFirst_requestRegistration:
  "subscribedFirst seen (fst (requestRegistration w r))"
  by (auto simp: requestRegistration_def Let_def topic_defs subscribedFirst_append
      split: prod.splits option.splits sum.splits token.splits)

lemma subscribedFirst_main: "subscribedFirst [] (fst (main w))"
  by (cases w rule: main_cases)
    (simp_all add: subscribedFirst_append subscribedFirst_requestCertificate
      subscribedFirst_requestRegistration)

lemma published_split:
  "tr = pre @ OpPublish t q r p # post \<Longrightarrow> (t, p) \<in> set (published tr)"
  by simp

text \<open>
  C7. In every run, a publication of a request comes after the subscriptions to the accept
  topic and to the reject topic of its exchange: whatever was performed before a
  \<open>Publish\<close> on the certificate topic contains the \<open>Subscribe\<close> calls for
  \<open>topicCreateAccepted\<close> and \<open>topicCreateRejected\<close>, and whatever was performed
  before a \<open>Publish\<close> on the registration topic contains those for
  \<open>topicRegisterAccepted\<close> and \<open>topicRegisterRejected\<close>; nothing is published on
  any other topic.
\<close>

theorem subscribe_before_publish:
  assumes "fst (main w) = pre @ OpPublish t q r p # post"
  shows "(t = topicCreateCertificate \<and>
            OpSubscribe topicCreateAccepted 1 \<in> set pre \<and>
            OpSubscribe topicCreateRejected 1 \<in> set pre) \<or>
         (t = topicRegisterThing \<and>
            OpSubscribe topicRegisterAccepted 1 \<in> set pre \<and>
            OpSubscribe topicRegisterRejected 1 \<in> set pre)"
proof -
  have "subscribedFirst [] (pre @ OpPublish t q r p # post)"
    using subscribedFirst_main [of w] assms by simp
  then have subs: "OpSubscribe (t @ ''/accepted'') 1 \<in> set pre"
    "OpSubscribe (t @ ''/rejected'') 1 \<in> set pre"
    using subscribedFirst_split [of "[]" pre t q r p post] by simp_all
  have "(t, p) \<in> set (published (fst (main w)))"
    using assms by (rule published_split)
  then have "t = topicCreateCertificate \<or> t = topicRegisterThing"
    by (cases w rule: main_cases)
      (auto dest: requestCertificate_elems requestRegistration_elems)
  then show ?thesis
  proof
    assume "t = topicCreateCertificate"
    with subs show ?thesis by (simp add: topic_defs)
  next
    assume "t = topicRegisterThing"
    with subs show ?thesis by (simp add: topic_defs)
  qed
qed

theorem subscribe_before_publish_witness:
  "fst (main happyWorld) =
     (scenarioRequestOps @ scenarioSaveOps @ scenarioSubscribeOps) @
       OpPublish topicRegisterThing 1 False scenarioRegistrationPayload # scenarioDoneOps \<and>
   OpSubscribe topicRegisterAccepted 1 \<in>
     set (scenarioRequestOps @ scenarioSaveOps @ scenarioSubscribeOps) \<and>
   OpSubscribe topicRegisterRejected 1 \<in>
     set (scenarioRequestOps @ scenarioSaveOps @ scenarioSubscribeOps)"
proof -
  have split: "fst (main happyWorld) =
     (scenarioRequestOps @ scenarioSaveOps @ scenarioSubscribeOps) @
       OpPublish topicRegisterThing 1 False scenarioRegistrationPayload # scenarioDoneOps"
    by (simp add: main_happy)
  from subscribe_before_publish [OF split] topics_distinct split show ?thesis
    by auto
qed

section \<open>C8: a rejection in Step A\<close>

text \<open>
  C8 as stated fails. A message on the reject topic with body \<open>quota exceeded\<close> is the
  first to arrive in Step A, and an accept arrives behind it before the main thread enters
  the first \<open>select\<close>. When Go's choice falls on the response channel the run writes
  both files, registers and returns; it does not end with an error.
\<close>

theorem rejection_counterexample:
  "inbox (raceWorld True) =
     [msg Second topicCreateRejected ''quota exceeded'',
      msg (2 * Second) topicCreateAccepted ''certificate-json'',
      msg (8 * Second) topicRegisterAccepted ''registration-json''] \<and>
   firstSelectAt (raceWorld True) = 3 * Second \<and>
   snd (main (raceWorld True)) = Returned \<and>
   fileWrites (fst (main (raceWorld True))) =
     [(permanentCertFile, ''CERTDATA'', mode0644), (permanentKeyFile, ''KEYDATA'', mode0600)]"
  by (simp add: race_inbox main_race)
    (simp add: scenarioRequestOps_def scenarioSaveOps_def scenarioSubscribeOps_def
      scenarioDoneOps_def)

text \<open>
  C8, amended. When the first message to arrive in Step A is on the reject topic, arrives
  before the timer fires, and no accept that parses has arrived by the time the main thread
  enters the first \<open>select\<close>, the run ends in \<open>log.Fatal\<close> with the message
  \<open>Certificate creation failed: certificate creation rejected: \<close> followed by the raw body
  of that message, unchanged, and no file has been written.
\<close>

theorem rejection_ends_run:
  assumes "snd (requestCertificate w) = None"
    and "inbox w = m # ms"
    and "topic m = topicCreateRejected"
    and "arrival m < firstSelectAt w + 10 * Second"
    and "\<forall>m'\<in>set ms. arrival m' \<le> firstSelectAt w \<and> topic m' = topicCreateAccepted \<longrightarrow>
           (\<forall>r. unmarshalCert w (payload m') \<noteq> Inr r)"
  shows "snd (main w) =
           Fatal (''Certificate creation failed: certificate creation rejected: '' @ payload m) \<and>
         fileWrites (fst (main w)) = []"
proof -
  have "fst (firstSelect w) = Failure (''certificate creation rejected: '' @ payload m)"
    using assms(2,4) route_rejected [OF assms(3)]
  proof (rule firstSelect_first_error)
    show "\<forall>m'\<in>set ms. arrival m' \<le> firstSelectAt w \<longrightarrow>
        (\<forall>r. route w subsCreate m' \<noteq> Some (ToCertResponse r))"
      using assms(5) by (auto simp: route_subsCreate_response)
  qed
  with assms(1) show ?thesis
    by (cases w rule: main_cases) (auto simp: requestCertificate_observed)
qed

theorem rejection_ends_run_witness:
  "snd (requestCertificate rejectedWorld) = None \<and>
   inbox rejectedWorld = [msg (4 * Second) topicCreateRejected ''quota exceeded''] \<and>
   firstSelectAt rejectedWorld + 10 * Second = 13 * Second \<and>
   snd (main rejectedWorld) =
     Fatal ''Certificate creation failed: certificate creation rejected: quota exceeded'' \<and>
   fileWrites (fst (main rejectedWorld)) = []"
proof -
  let ?m = "msg (4 * Second) topicCreateRejected ''quota exceeded''"
  have h: "inbox rejectedWorld = ?m # []" "topic ?m = topicCreateRejected"
    "arrival ?m < firstSelectAt rejectedWorld + 10 * Second"
    "firstSelectAt rejectedWorld + 10 * Second = 13 * Second"
    "payload ?m = ''quota exceeded''"
    by (simp_all add: rejectedWorld_def scenarioWorld_def msg_def Second_def)
  have none: "\<forall>m'\<in>set []. arrival m' \<le> firstSelectAt rejectedWorld \<and>
      topic m' = topicCreateAccepted \<longrightarrow>
      (\<forall>r. unmarshalCert rejectedWorld (payload m') \<noteq> Inr r)"
    by simp
  from rejection_ends_run [OF reaches_scenarios(2) h(1,2,3) none] h reaches_scenarios(2)
  show ?thesis by simp
qed

section \<open>C9: the topics\<close>

lemma requestCertificate_reached:
  assumes "snd (requestCertificate w) = None"
  shows "\<exists>p. jsonMarshal w createCertPayload = Inr p \<and>
           published (fst (requestCertificate w)) = [(topicCreateCertificate, p)]"
    and "subscribedTopics (fst (requestCertificate w)) =
           [topicCreateAccepted, topicCreateRejected]"
  using assms createMQTTClient_ops [of w certificateFile privateKeyFile rootCAFile]
  by (auto simp: requestCertificate_def Let_def
      split: prod.splits option.splits sum.splits token.splits)

lemma requestRegistration_reached:
  assumes "snd (requestRegistration w r) = None"
  shows "\<exists>p. jsonMarshal w (registerThingPayload r) = Inr p \<and>
           published (fst (requestRegistration w r)) = [(topicRegisterThing, p)]"
    and "subscribedTopics (fst (requestRegistration w r)) =
           [topicRegisterAccepted, topicRegisterRejected]"
  using assms
  by (auto simp: requestRegistration_def Let_def split: option.splits sum.splits token.splits)

lemma main_without_registration:
  assumes "snd (requestCertificate w) = None" and "\<forall>r. fst (firstSelect w) \<noteq> Success r"
  shows "fst (main w) = fst (requestCertificate w)"
  using assms by (cases w rule: main_cases) auto

lemma main_with_registration:
  assumes "snd (requestCertificate w) = None" and "fst (firstSelect w) = Success r"
    and "snd (requestRegistration w r) = None"
  shows "published (fst (main w)) =
           published (fst (requestCertificate w)) @ published (fst (requestRegistration w r))"
    and "subscribedTopics (fst (main w)) =
           subscribedTopics (fst (requestCertificate w)) @
           subscribedTopics (fst (requestRegistration w r))"
  using assms by (cases w rule: main_cases; simp)+

text \<open>
  C9. The topic strings are those of the topic contract. Certificate issuance publishes to
  \<open>$aws/certificates/create/json\<close> and identity registration to
  \<open>$aws/provisioning-templates/T/provision/json\<close> with \<open>T\<close> the configured template
  name; the accept and reject topics of both are the publish topic followed by
  \<open>/accepted\<close> and \<open>/rejected\<close>, and the callbacks are registered on them accordingly.
  A run that reaches the first \<open>select\<close> has subscribed to the accept and the reject topic
  of certificate issuance, in that order, and published the certificate request, and that
  request only, on the certificate topic; a run that reaches the second \<open>select\<close> has
  then subscribed to the accept and the reject topic of registration and published the
  registration request on the registration topic. No run publishes or subscribes on any
  other topic.
\<close>

theorem topic_contract:
  "topicCreateCertificate = ''$aws/certificates/create/json'' \<and>
   topicCreateAccepted = topicCreateCertificate @ ''/accepted'' \<and>
   topicCreateRejected = topicCreateCertificate @ ''/rejected'' \<and>
   topicRegisterThing = ''$aws/provisioning-templates/'' @ templateName @ ''/provision/json'' \<and>
   topicRegisterAccepted = topicRegisterThing @ ''/accepted'' \<and>
   topicRegisterRejected = topicRegisterThing @ ''/rejected'' \<and>
   set (map fst (published (fst (main w)))) \<subseteq> {topicCreateCertificate, topicRegisterThing} \<and>
   set (subscribedTopics (fst (main w))) \<subseteq>
     {topicCreateAccepted, topicCreateRejected, topicRegisterAccepted, topicRegisterRejected} \<and>
   map_of subsAll topicCreateAccepted = Some HCreateAccepted \<and>
   map_of subsAll topicCreateRejected = Some HCreateRejected \<and>
   map_of subsAll topicRegisterAccepted = Some HRegisterAccepted \<and>
   map_of subsAll topicRegisterRejected = Some HRegisterRejected \<and>
   (snd (requestCertificate w) = None \<and> (\<forall>r. fst (firstSelect w) \<noteq> Success r) \<longrightarrow>
      (\<exists>p. jsonMarshal w createCertPayload = Inr p \<and>
           published (fst (main w)) = [(topicCreateCertificate, p)]) \<and>
      subscribedTopics (fst (main w)) = [topicCreateAccepted, topicCreateRejected]) \<and>
   (snd (requestCertificate w) = None \<and> fst (firstSelect w) = Success r \<and>
    snd (requestRegistration w r) = None \<longrightarrow>
      (\<exists>p p2. jsonMarshal w createCertPayload = Inr p \<and>
           jsonMarshal w (registerThingPayload r) = Inr p2 \<and>
           published (fst (main w)) =
             [(topicCreateCertificate, p), (topicRegisterThing, p2)]) \<and>
      subscribedTopics (fst (main w)) =
        [topicCreateAccepted, topicCreateRejected,
         topicRegisterAccepted, topicRegisterRejected])"
proof -
  have strings:
    "topicCreateCertificate = ''$aws/certificates/create/json''"
    "topicCreateAccepted = topicCreateCertificate @ ''/accepted''"
    "topicCreateRejected = topicCreateCertificate @ ''/rejected''"
    "topicRegisterThing = ''$aws/provisioning-templates/'' @ templateName @ ''/provision/json''"
    "topicRegisterAccepted = topicRegisterThing @ ''/accepted''"
    "topicRegisterRejected = topicRegisterThing @ ''/rejected''"
    by (simp_all add: topic_defs templateName_def)
  have pub: "set (map fst (published (fst (main w)))) \<subseteq>
      {topicCreateCertificate, topicRegisterThing}"
    by (cases w rule: main_cases)
      (auto dest: requestCertificate_elems requestRegistration_elems)
  have sub: "set (subscribedTopics (fst (main w))) \<subseteq>
      {topicCreateAccepted, topicCreateRejected, topicRegisterAccepted, topicRegisterRejected}"
    by (cases w rule: main_cases)
      (auto dest: requestCertificate_elems requestRegistration_elems)
  have handlers: "map_of subsAll topicCreateAccepted = Some HCreateAccepted"
    "map_of subsAll topicCreateRejected = Some HCreateRejected"
    "map_of subsAll topicRegisterAccepted = Some HRegisterAccepted"
    "map_of subsAll topicRegisterRejected = Some HRegisterRejected"
    by (simp_all add: subsAll_def subsCreate_def topic_defs)
  have first: "(\<exists>p. jsonMarshal w createCertPayload = Inr p \<and>
           published (fst (main w)) = [(topicCreateCertificate, p)]) \<and>
      subscribedTopics (fst (main w)) = [topicCreateAccepted, topicCreateRejected]"
    if "snd (requestCertificate w) = None" "\<forall>r. fst (firstSelect w) \<noteq> Success r"
    using requestCertificate_reached [OF that(1)] main_without_registration [OF that]
    by simp
  have both: "(\<exists>p p2. jsonMarshal w createCertPayload = Inr p \<and>
           jsonMarshal w (registerThingPayload r) = Inr p2 \<and>
           published (fst (main w)) =
             [(topicCreateCertificate, p), (topicRegisterThing, p2)]) \<and>
      subscribedTopics (fst (main w)) =
        [topicCreateAccepted, topicCreateRejected,
         topicRegisterAccepted, topicRegisterRejected]"
    if "snd (requestCertificate w) = None" "fst (firstSelect w) = Success r"
      "snd (requestRegistration w r) = None"
    using requestCertificate_reached [OF that(1)] requestRegistration_reached [OF that(3)]
      main_with_registration [OF that]
    by auto
  from strings pub sub handlers first both show ?thesis by blast
qed

theorem topic_contract_witness:
  "snd (requestCertificate happyWorld) = None \<and>
   fst (firstSelect happyWorld) = Success scenarioCertResponse \<and>
   snd (requestRegistration happyWorld scenarioCertResponse) = None \<and>
   published (fst (main happyWorld)) =
     [(topicCreateCertificate, ''certificateSigningRequest=''),
      (topicRegisterThing, scenarioRegistrationPayload)] \<and>
   subscribedTopics (fst (main happyWorld)) =
     [topicCreateAccepted, topicCreateRejected, topicRegisterAccepted, topicRegisterRejected] \<and>
   snd (requestCertificate rejectedWorld) = None \<and>
   fst (firstSelect rejectedWorld) = Failure ''certificate creation rejected: quota exceeded'' \<and>
   published (fst (main rejectedWorld)) =
     [(topicCreateCertificate, ''certificateSigningRequest='')] \<and>
   subscribedTopics (fst (main rejectedWorld)) = [topicCreateAccepted, topicCreateRejected]"
proof -
  have happy: "snd (requestCertificate happyWorld) = None"
    "fst (firstSelect happyWorld) = Success scenarioCertResponse"
    "snd (requestRegistration happyWorld scenarioCertResponse) = None"
    by (simp_all add: reaches_scenarios firstSelect_happy)
      (simp add: happyWorld_def requestRegistration_scenario)
  have rejected: "snd (requestCertificate rejectedWorld) = None"
    "\<forall>r. fst (firstSelect rejectedWorld) \<noteq> Success r"
    by (simp_all add: reaches_scenarios firstSelect_rejected)
  have marshal: "jsonMarshal happyWorld createCertPayload = Inr ''certificateSigningRequest=''"
    "jsonMarshal rejectedWorld createCertPayload = Inr ''certificateSigningRequest=''"
    "jsonMarshal happyWorld (registerThingPayload scenarioCertResponse) =
       Inr scenarioRegistrationPayload"
    by (simp_all add: happyWorld_def rejectedWorld_def scenarioWorld_def scenarioMarshal_def
        createCertPayload_def registerThingPayload_def templateParams_def
        scenarioCertResponse_def scenarioRegistrationPayload_def serialNumber_def)
  from topic_contract [of happyWorld scenarioCertResponse] happy marshal
  have 1: "published (fst (main happyWorld)) =
     [(topicCreateCertificate, ''certificateSigningRequest=''),
      (topicRegisterThing, scenarioRegistrationPayload)]"
    "subscribedTopics (fst (main happyWorld)) =
     [topicCreateAccepted, topicCreateRejected, topicRegisterAccepted, topicRegisterRejected]"
    by auto
  from topic_contract [of rejectedWorld scenarioCertResponse] rejected marshal
  have 2: "published (fst (main rejectedWorld)) =
     [(topicCreateCertificate, ''certificateSigningRequest='')]"
    "subscribedTopics (fst (main rejectedWorld)) = [topicCreateAccepted, topicCreateRejected]"
    by auto
  from 1 2 happy rejected(1) firstSelect_rejected show ?thesis by simp
qed

section \<open>C10: the files\<close>

text \<open>
  C10. No run writes to the claim-credential files that are read at startup (the configured
  certificate, private-key and root-CA files): every file written is one of the two fixed
  output names, which differ from each other and from the three names read.
\<close>

theorem claim_credentials_not_written:
  "set (map fst (fileWrites (fst (main w)))) \<subseteq> {permanentCertFile, permanentKeyFile} \<and>
   set (filesRead (fst (main w))) \<subseteq> {certificateFile, privateKeyFile, rootCAFile} \<and>
   permanentCertFile \<noteq> permanentKeyFile \<and>
   set (map fst (fileWrites (fst (main w)))) \<inter> {certificateFile, privateKeyFile, rootCAFile} = {}"
proof -
  have names: "permanentCertFile \<noteq> permanentKeyFile"
    "{permanentCertFile, permanentKeyFile} \<inter> {certificateFile, privateKeyFile, rootCAFile} = {}"
    by (simp_all add: file_defs)
  have wr: "set (map fst (fileWrites (fst (main w)))) \<subseteq> {permanentCertFile, permanentKeyFile}"
    by (cases w rule: main_cases)
      (auto simp: requestCertificate_observed dest: requestRegistration_elems)
  have rd: "set (filesRead (fst (main w))) \<subseteq> {certificateFile, privateKeyFile, rootCAFile}"
    by (cases w rule: main_cases)
      (auto simp: requestRegistration_observed dest: requestCertificate_elems)
  from names wr rd show ?thesis by blast
qed

end
